theory Spec2Isabelle
  imports Complex_Main "HOL-Library.Word" "HOL-Library.Sublist"
begin

unbundle bit_operations_syntax

chapter \<open>The detection engine of Fact-Safe-Elder\<close>

text \<open>
  A shallow embedding of \<open>backend/app/services/detection.py\<close> (the rule-based detection
  engine with its cache and statistics), of the logging decorator and the logger property
  of \<open>backend/app/core/logging_config.py\<close> that the engine uses, and of the weighted vote
  of \<open>backend/app/services/ai_models.py\<close>, followed by the properties proved about them.
  Functions keep the names of the source; a method \<open>_name\<close> is called \<open>name\<close>.
\<close>

section \<open>Python values\<close>

text \<open>
  A Python \<open>str\<close> is a sequence of Unicode code points and is modelled as a list of
  naturals; a well-formed \<open>str\<close> holds code points below \<open>0x110000\<close> only. String
  literals of the source are written as their code points. Python floats are modelled as
  reals: every constant of the engine is a short decimal and all arithmetic is exact here.
  Exceptions are values of \<open>py_error\<close>, carried in the left summand of a sum type.
\<close>

type_synonym ustr = "nat list"

datatype py_error = UnicodeEncodeError | ValueError | ZeroDivisionError | NameError | AttributeError

text \<open>\<open>kw in text\<close> on strings: \<open>kw\<close> occurs as a contiguous substring.\<close>

fun py_in :: "ustr \<Rightarrow> ustr \<Rightarrow> bool" where
  "py_in kw [] = (kw = [])"
| "py_in kw (c # cs) = (if prefix kw (c # cs) then True else py_in kw cs)"

text \<open>\<open>str(n)\<close> for a non-negative integer: its decimal digits.\<close>

fun py_str_nat :: "nat \<Rightarrow> ustr" where
  "py_str_nat n = (if n < 10 then [0x30 + n] else py_str_nat (n div 10) @ [0x30 + n mod 10])"

declare py_str_nat.simps [simp del]

section \<open>Character classes of the interpreter\<close>

text \<open>
  The classes \<open>\d\<close>, \<open>\s\<close> and \<open>\w\<close> of the \<open>re\<close> module on \<open>str\<close> patterns and
  the lower-case mapping of \<open>str.lower\<close> are tables of the interpreter's Unicode database
  (version 14.0.0, as in CPython 3.11), given as sorted lists of inclusive code-point ranges.
\<close>

fun in_ranges :: "(nat \<times> nat) list \<Rightarrow> nat \<Rightarrow> bool" where
  "in_ranges [] c = False"
| "in_ranges ((lo, hi) # rs) c = (if lo \<le> c \<and> c \<le> hi then True else in_ranges rs c)"

definition digit_ranges :: "(nat \<times> nat) list" where
  "digit_ranges =
     [(0x30, 0x39), (0x660, 0x669), (0x6F0, 0x6F9), (0x7C0, 0x7C9), (0x966, 0x96F),
      (0x9E6, 0x9EF), (0xA66, 0xA6F), (0xAE6, 0xAEF), (0xB66, 0xB6F), (0xBE6, 0xBEF),
      (0xC66, 0xC6F), (0xCE6, 0xCEF), (0xD66, 0xD6F), (0xDE6, 0xDEF), (0xE50, 0xE59),
      (0xED0, 0xED9), (0xF20, 0xF29), (0x1040, 0x1049), (0x1090, 0x1099), (0x17E0, 0x17E9),
      (0x1810, 0x1819), (0x1946, 0x194F), (0x19D0, 0x19D9), (0x1A80, 0x1A89), (0x1A90, 0x1A99),
      (0x1B50, 0x1B59), (0x1BB0, 0x1BB9), (0x1C40, 0x1C49), (0x1C50, 0x1C59), (0xA620, 0xA629),
      (0xA8D0, 0xA8D9), (0xA900, 0xA909), (0xA9D0, 0xA9D9), (0xA9F0, 0xA9F9), (0xAA50, 0xAA59),
      (0xABF0, 0xABF9), (0xFF10, 0xFF19), (0x104A0, 0x104A9), (0x10D30, 0x10D39),
      (0x11066, 0x1106F), (0x110F0, 0x110F9), (0x11136, 0x1113F), (0x111D0, 0x111D9),
      (0x112F0, 0x112F9), (0x11450, 0x11459), (0x114D0, 0x114D9), (0x11650, 0x11659),
      (0x116C0, 0x116C9), (0x11730, 0x11739), (0x118E0, 0x118E9), (0x11950, 0x11959),
      (0x11C50, 0x11C59), (0x11D50, 0x11D59), (0x11DA0, 0x11DA9), (0x16A60, 0x16A69),
      (0x16AC0, 0x16AC9), (0x16B50, 0x16B59), (0x1D7CE, 0x1D7FF), (0x1E140, 0x1E149),
      (0x1E2F0, 0x1E2F9), (0x1E950, 0x1E959), (0x1FBF0, 0x1FBF9)]"

definition space_ranges :: "(nat \<times> nat) list" where
  "space_ranges =
     [(0x9, 0xD), (0x1C, 0x20), (0x85, 0x85), (0xA0, 0xA0), (0x1680, 0x1680), (0x2000, 0x200A),
      (0x2028, 0x2029), (0x202F, 0x202F), (0x205F, 0x205F), (0x3000, 0x3000)]"

definition word_ranges_0 :: "(nat \<times> nat) list" where
  "word_ranges_0 =
     [(0x30, 0x39), (0x41, 0x5A), (0x5F, 0x5F), (0x61, 0x7A), (0xAA, 0xAA), (0xB2, 0xB3),
      (0xB5, 0xB5), (0xB9, 0xBA), (0xBC, 0xBE), (0xC0, 0xD6), (0xD8, 0xF6), (0xF8, 0x2C1),
      (0x2C6, 0x2D1), (0x2E0, 0x2E4), (0x2EC, 0x2EC), (0x2EE, 0x2EE), (0x370, 0x374),
      (0x376, 0x377), (0x37A, 0x37D), (0x37F, 0x37F), (0x386, 0x386), (0x388, 0x38A),
      (0x38C, 0x38C), (0x38E, 0x3A1), (0x3A3, 0x3F5), (0x3F7, 0x481), (0x48A, 0x52F),
      (0x531, 0x556), (0x559, 0x559), (0x560, 0x588), (0x5D0, 0x5EA), (0x5EF, 0x5F2),
      (0x620, 0x64A), (0x660, 0x669), (0x66E, 0x66F), (0x671, 0x6D3), (0x6D5, 0x6D5),
      (0x6E5, 0x6E6), (0x6EE, 0x6FC), (0x6FF, 0x6FF), (0x710, 0x710), (0x712, 0x72F),
      (0x74D, 0x7A5), (0x7B1, 0x7B1), (0x7C0, 0x7EA), (0x7F4, 0x7F5)]"

definition word_ranges_1 :: "(nat \<times> nat) list" where
  "word_ranges_1 =
     [(0x7FA, 0x7FA), (0x800, 0x815), (0x81A, 0x81A), (0x824, 0x824), (0x828, 0x828),
      (0x840, 0x858), (0x860, 0x86A), (0x870, 0x887), (0x889, 0x88E), (0x8A0, 0x8C9),
      (0x904, 0x939), (0x93D, 0x93D), (0x950, 0x950), (0x958, 0x961), (0x966, 0x96F),
      (0x971, 0x980), (0x985, 0x98C), (0x98F, 0x990), (0x993, 0x9A8), (0x9AA, 0x9B0),
      (0x9B2, 0x9B2), (0x9B6, 0x9B9), (0x9BD, 0x9BD), (0x9CE, 0x9CE), (0x9DC, 0x9DD),
      (0x9DF, 0x9E1), (0x9E6, 0x9F1), (0x9F4, 0x9F9), (0x9FC, 0x9FC), (0xA05, 0xA0A),
      (0xA0F, 0xA10), (0xA13, 0xA28), (0xA2A, 0xA30), (0xA32, 0xA33), (0xA35, 0xA36),
      (0xA38, 0xA39), (0xA59, 0xA5C), (0xA5E, 0xA5E), (0xA66, 0xA6F), (0xA72, 0xA74),
      (0xA85, 0xA8D), (0xA8F, 0xA91), (0xA93, 0xAA8), (0xAAA, 0xAB0), (0xAB2, 0xAB3),
      (0xAB5, 0xAB9)]"

definition word_ranges_2 :: "(nat \<times> nat) list" where
  "word_ranges_2 =
     [(0xABD, 0xABD), (0xAD0, 0xAD0), (0xAE0, 0xAE1), (0xAE6, 0xAEF), (0xAF9, 0xAF9),
      (0xB05, 0xB0C), (0xB0F, 0xB10), (0xB13, 0xB28), (0xB2A, 0xB30), (0xB32, 0xB33),
      (0xB35, 0xB39), (0xB3D, 0xB3D), (0xB5C, 0xB5D), (0xB5F, 0xB61), (0xB66, 0xB6F),
      (0xB71, 0xB77), (0xB83, 0xB83), (0xB85, 0xB8A), (0xB8E, 0xB90), (0xB92, 0xB95),
      (0xB99, 0xB9A), (0xB9C, 0xB9C), (0xB9E, 0xB9F), (0xBA3, 0xBA4), (0xBA8, 0xBAA),
      (0xBAE, 0xBB9), (0xBD0, 0xBD0), (0xBE6, 0xBF2), (0xC05, 0xC0C), (0xC0E, 0xC10),
      (0xC12, 0xC28), (0xC2A, 0xC39), (0xC3D, 0xC3D), (0xC58, 0xC5A), (0xC5D, 0xC5D),
      (0xC60, 0xC61), (0xC66, 0xC6F), (0xC78, 0xC7E), (0xC80, 0xC80), (0xC85, 0xC8C),
      (0xC8E, 0xC90), (0xC92, 0xCA8), (0xCAA, 0xCB3), (0xCB5, 0xCB9), (0xCBD, 0xCBD),
      (0xCDD, 0xCDE)]"

definition word_ranges_3 :: "(nat \<times> nat) list" where
  "word_ranges_3 =
     [(0xCE0, 0xCE1), (0xCE6, 0xCEF), (0xCF1, 0xCF2), (0xD04, 0xD0C), (0xD0E, 0xD10),
      (0xD12, 0xD3A), (0xD3D, 0xD3D), (0xD4E, 0xD4E), (0xD54, 0xD56), (0xD58, 0xD61),
      (0xD66, 0xD78), (0xD7A, 0xD7F), (0xD85, 0xD96), (0xD9A, 0xDB1), (0xDB3, 0xDBB),
      (0xDBD, 0xDBD), (0xDC0, 0xDC6), (0xDE6, 0xDEF), (0xE01, 0xE30), (0xE32, 0xE33),
      (0xE40, 0xE46), (0xE50, 0xE59), (0xE81, 0xE82), (0xE84, 0xE84), (0xE86, 0xE8A),
      (0xE8C, 0xEA3), (0xEA5, 0xEA5), (0xEA7, 0xEB0), (0xEB2, 0xEB3), (0xEBD, 0xEBD),
      (0xEC0, 0xEC4), (0xEC6, 0xEC6), (0xED0, 0xED9), (0xEDC, 0xEDF), (0xF00, 0xF00),
      (0xF20, 0xF33), (0xF40, 0xF47), (0xF49, 0xF6C), (0xF88, 0xF8C), (0x1000, 0x102A),
      (0x103F, 0x1049), (0x1050, 0x1055), (0x105A, 0x105D), (0x1061, 0x1061), (0x1065, 0x1066),
      (0x106E, 0x1070)]"

definition word_ranges_4 :: "(nat \<times> nat) list" where
  "word_ranges_4 =
     [(0x1075, 0x1081), (0x108E, 0x108E), (0x1090, 0x1099), (0x10A0, 0x10C5), (0x10C7, 0x10C7),
      (0x10CD, 0x10CD), (0x10D0, 0x10FA), (0x10FC, 0x1248), (0x124A, 0x124D), (0x1250, 0x1256),
      (0x1258, 0x1258), (0x125A, 0x125D), (0x1260, 0x1288), (0x128A, 0x128D), (0x1290, 0x12B0),
      (0x12B2, 0x12B5), (0x12B8, 0x12BE), (0x12C0, 0x12C0), (0x12C2, 0x12C5), (0x12C8, 0x12D6),
      (0x12D8, 0x1310), (0x1312, 0x1315), (0x1318, 0x135A), (0x1369, 0x137C), (0x1380, 0x138F),
      (0x13A0, 0x13F5), (0x13F8, 0x13FD), (0x1401, 0x166C), (0x166F, 0x167F), (0x1681, 0x169A),
      (0x16A0, 0x16EA), (0x16EE, 0x16F8), (0x1700, 0x1711), (0x171F, 0x1731), (0x1740, 0x1751),
      (0x1760, 0x176C), (0x176E, 0x1770), (0x1780, 0x17B3), (0x17D7, 0x17D7), (0x17DC, 0x17DC),
      (0x17E0, 0x17E9), (0x17F0, 0x17F9), (0x1810, 0x1819), (0x1820, 0x1878), (0x1880, 0x1884),
      (0x1887, 0x18A8)]"

definition word_ranges_5 :: "(nat \<times> nat) list" where
  "word_ranges_5 =
     [(0x18AA, 0x18AA), (0x18B0, 0x18F5), (0x1900, 0x191E), (0x1946, 0x196D), (0x1970, 0x1974),
      (0x1980, 0x19AB), (0x19B0, 0x19C9), (0x19D0, 0x19DA), (0x1A00, 0x1A16), (0x1A20, 0x1A54),
      (0x1A80, 0x1A89), (0x1A90, 0x1A99), (0x1AA7, 0x1AA7), (0x1B05, 0x1B33), (0x1B45, 0x1B4C),
      (0x1B50, 0x1B59), (0x1B83, 0x1BA0), (0x1BAE, 0x1BE5), (0x1C00, 0x1C23), (0x1C40, 0x1C49),
      (0x1C4D, 0x1C7D), (0x1C80, 0x1C88), (0x1C90, 0x1CBA), (0x1CBD, 0x1CBF), (0x1CE9, 0x1CEC),
      (0x1CEE, 0x1CF3), (0x1CF5, 0x1CF6), (0x1CFA, 0x1CFA), (0x1D00, 0x1DBF), (0x1E00, 0x1F15),
      (0x1F18, 0x1F1D), (0x1F20, 0x1F45), (0x1F48, 0x1F4D), (0x1F50, 0x1F57), (0x1F59, 0x1F59),
      (0x1F5B, 0x1F5B), (0x1F5D, 0x1F5D), (0x1F5F, 0x1F7D), (0x1F80, 0x1FB4), (0x1FB6, 0x1FBC),
      (0x1FBE, 0x1FBE), (0x1FC2, 0x1FC4), (0x1FC6, 0x1FCC), (0x1FD0, 0x1FD3), (0x1FD6, 0x1FDB),
      (0x1FE0, 0x1FEC)]"

definition word_ranges_6 :: "(nat \<times> nat) list" where
  "word_ranges_6 =
     [(0x1FF2, 0x1FF4), (0x1FF6, 0x1FFC), (0x2070, 0x2071), (0x2074, 0x2079), (0x207F, 0x2089),
      (0x2090, 0x209C), (0x2102, 0x2102), (0x2107, 0x2107), (0x210A, 0x2113), (0x2115, 0x2115),
      (0x2119, 0x211D), (0x2124, 0x2124), (0x2126, 0x2126), (0x2128, 0x2128), (0x212A, 0x212D),
      (0x212F, 0x2139), (0x213C, 0x213F), (0x2145, 0x2149), (0x214E, 0x214E), (0x2150, 0x2189),
      (0x2460, 0x249B), (0x24EA, 0x24FF), (0x2776, 0x2793), (0x2C00, 0x2CE4), (0x2CEB, 0x2CEE),
      (0x2CF2, 0x2CF3), (0x2CFD, 0x2CFD), (0x2D00, 0x2D25), (0x2D27, 0x2D27), (0x2D2D, 0x2D2D),
      (0x2D30, 0x2D67), (0x2D6F, 0x2D6F), (0x2D80, 0x2D96), (0x2DA0, 0x2DA6), (0x2DA8, 0x2DAE),
      (0x2DB0, 0x2DB6), (0x2DB8, 0x2DBE), (0x2DC0, 0x2DC6), (0x2DC8, 0x2DCE), (0x2DD0, 0x2DD6),
      (0x2DD8, 0x2DDE), (0x2E2F, 0x2E2F), (0x3005, 0x3007), (0x3021, 0x3029), (0x3031, 0x3035),
      (0x3038, 0x303C)]"

definition word_ranges_7 :: "(nat \<times> nat) list" where
  "word_ranges_7 =
     [(0x3041, 0x3096), (0x309D, 0x309F), (0x30A1, 0x30FA), (0x30FC, 0x30FF), (0x3105, 0x312F),
      (0x3131, 0x318E), (0x3192, 0x3195), (0x31A0, 0x31BF), (0x31F0, 0x31FF), (0x3220, 0x3229),
      (0x3248, 0x324F), (0x3251, 0x325F), (0x3280, 0x3289), (0x32B1, 0x32BF), (0x3400, 0x4DBF),
      (0x4E00, 0xA48C), (0xA4D0, 0xA4FD), (0xA500, 0xA60C), (0xA610, 0xA62B), (0xA640, 0xA66E),
      (0xA67F, 0xA69D), (0xA6A0, 0xA6EF), (0xA717, 0xA71F), (0xA722, 0xA788), (0xA78B, 0xA7CA),
      (0xA7D0, 0xA7D1), (0xA7D3, 0xA7D3), (0xA7D5, 0xA7D9), (0xA7F2, 0xA801), (0xA803, 0xA805),
      (0xA807, 0xA80A), (0xA80C, 0xA822), (0xA830, 0xA835), (0xA840, 0xA873), (0xA882, 0xA8B3),
      (0xA8D0, 0xA8D9), (0xA8F2, 0xA8F7), (0xA8FB, 0xA8FB), (0xA8FD, 0xA8FE), (0xA900, 0xA925),
      (0xA930, 0xA946), (0xA960, 0xA97C), (0xA984, 0xA9B2), (0xA9CF, 0xA9D9), (0xA9E0, 0xA9E4),
      (0xA9E6, 0xA9FE)]"

definition word_ranges_8 :: "(nat \<times> nat) list" where
  "word_ranges_8 =
     [(0xAA00, 0xAA28), (0xAA40, 0xAA42), (0xAA44, 0xAA4B), (0xAA50, 0xAA59), (0xAA60, 0xAA76),
      (0xAA7A, 0xAA7A), (0xAA7E, 0xAAAF), (0xAAB1, 0xAAB1), (0xAAB5, 0xAAB6), (0xAAB9, 0xAABD),
      (0xAAC0, 0xAAC0), (0xAAC2, 0xAAC2), (0xAADB, 0xAADD), (0xAAE0, 0xAAEA), (0xAAF2, 0xAAF4),
      (0xAB01, 0xAB06), (0xAB09, 0xAB0E), (0xAB11, 0xAB16), (0xAB20, 0xAB26), (0xAB28, 0xAB2E),
      (0xAB30, 0xAB5A), (0xAB5C, 0xAB69), (0xAB70, 0xABE2), (0xABF0, 0xABF9), (0xAC00, 0xD7A3),
      (0xD7B0, 0xD7C6), (0xD7CB, 0xD7FB), (0xF900, 0xFA6D), (0xFA70, 0xFAD9), (0xFB00, 0xFB06),
      (0xFB13, 0xFB17), (0xFB1D, 0xFB1D), (0xFB1F, 0xFB28), (0xFB2A, 0xFB36), (0xFB38, 0xFB3C),
      (0xFB3E, 0xFB3E), (0xFB40, 0xFB41), (0xFB43, 0xFB44), (0xFB46, 0xFBB1), (0xFBD3, 0xFD3D),
      (0xFD50, 0xFD8F), (0xFD92, 0xFDC7), (0xFDF0, 0xFDFB), (0xFE70, 0xFE74), (0xFE76, 0xFEFC),
      (0xFF10, 0xFF19)]"

definition word_ranges_9 :: "(nat \<times> nat) list" where
  "word_ranges_9 =
     [(0xFF21, 0xFF3A), (0xFF41, 0xFF5A), (0xFF66, 0xFFBE), (0xFFC2, 0xFFC7), (0xFFCA, 0xFFCF),
      (0xFFD2, 0xFFD7), (0xFFDA, 0xFFDC), (0x10000, 0x1000B), (0x1000D, 0x10026),
      (0x10028, 0x1003A), (0x1003C, 0x1003D), (0x1003F, 0x1004D), (0x10050, 0x1005D),
      (0x10080, 0x100FA), (0x10107, 0x10133), (0x10140, 0x10178), (0x1018A, 0x1018B),
      (0x10280, 0x1029C), (0x102A0, 0x102D0), (0x102E1, 0x102FB), (0x10300, 0x10323),
      (0x1032D, 0x1034A), (0x10350, 0x10375), (0x10380, 0x1039D), (0x103A0, 0x103C3),
      (0x103C8, 0x103CF), (0x103D1, 0x103D5), (0x10400, 0x1049D), (0x104A0, 0x104A9),
      (0x104B0, 0x104D3), (0x104D8, 0x104FB), (0x10500, 0x10527), (0x10530, 0x10563),
      (0x10570, 0x1057A), (0x1057C, 0x1058A), (0x1058C, 0x10592), (0x10594, 0x10595),
      (0x10597, 0x105A1), (0x105A3, 0x105B1), (0x105B3, 0x105B9), (0x105BB, 0x105BC),
      (0x10600, 0x10736), (0x10740, 0x10755), (0x10760, 0x10767), (0x10780, 0x10785),
      (0x10787, 0x107B0)]"

definition word_ranges_10 :: "(nat \<times> nat) list" where
  "word_ranges_10 =
     [(0x107B2, 0x107BA), (0x10800, 0x10805), (0x10808, 0x10808), (0x1080A, 0x10835),
      (0x10837, 0x10838), (0x1083C, 0x1083C), (0x1083F, 0x10855), (0x10858, 0x10876),
      (0x10879, 0x1089E), (0x108A7, 0x108AF), (0x108E0, 0x108F2), (0x108F4, 0x108F5),
      (0x108FB, 0x1091B), (0x10920, 0x10939), (0x10980, 0x109B7), (0x109BC, 0x109CF),
      (0x109D2, 0x10A00), (0x10A10, 0x10A13), (0x10A15, 0x10A17), (0x10A19, 0x10A35),
      (0x10A40, 0x10A48), (0x10A60, 0x10A7E), (0x10A80, 0x10A9F), (0x10AC0, 0x10AC7),
      (0x10AC9, 0x10AE4), (0x10AEB, 0x10AEF), (0x10B00, 0x10B35), (0x10B40, 0x10B55),
      (0x10B58, 0x10B72), (0x10B78, 0x10B91), (0x10BA9, 0x10BAF), (0x10C00, 0x10C48),
      (0x10C80, 0x10CB2), (0x10CC0, 0x10CF2), (0x10CFA, 0x10D23), (0x10D30, 0x10D39),
      (0x10E60, 0x10E7E), (0x10E80, 0x10EA9), (0x10EB0, 0x10EB1), (0x10F00, 0x10F27),
      (0x10F30, 0x10F45), (0x10F51, 0x10F54), (0x10F70, 0x10F81), (0x10FB0, 0x10FCB),
      (0x10FE0, 0x10FF6), (0x11003, 0x11037)]"

definition word_ranges_11 :: "(nat \<times> nat) list" where
  "word_ranges_11 =
     [(0x11052, 0x1106F), (0x11071, 0x11072), (0x11075, 0x11075), (0x11083, 0x110AF),
      (0x110D0, 0x110E8), (0x110F0, 0x110F9), (0x11103, 0x11126), (0x11136, 0x1113F),
      (0x11144, 0x11144), (0x11147, 0x11147), (0x11150, 0x11172), (0x11176, 0x11176),
      (0x11183, 0x111B2), (0x111C1, 0x111C4), (0x111D0, 0x111DA), (0x111DC, 0x111DC),
      (0x111E1, 0x111F4), (0x11200, 0x11211), (0x11213, 0x1122B), (0x11280, 0x11286),
      (0x11288, 0x11288), (0x1128A, 0x1128D), (0x1128F, 0x1129D), (0x1129F, 0x112A8),
      (0x112B0, 0x112DE), (0x112F0, 0x112F9), (0x11305, 0x1130C), (0x1130F, 0x11310),
      (0x11313, 0x11328), (0x1132A, 0x11330), (0x11332, 0x11333), (0x11335, 0x11339),
      (0x1133D, 0x1133D), (0x11350, 0x11350), (0x1135D, 0x11361), (0x11400, 0x11434),
      (0x11447, 0x1144A), (0x11450, 0x11459), (0x1145F, 0x11461), (0x11480, 0x114AF),
      (0x114C4, 0x114C5), (0x114C7, 0x114C7), (0x114D0, 0x114D9), (0x11580, 0x115AE),
      (0x115D8, 0x115DB), (0x11600, 0x1162F)]"

definition word_ranges_12 :: "(nat \<times> nat) list" where
  "word_ranges_12 =
     [(0x11644, 0x11644), (0x11650, 0x11659), (0x11680, 0x116AA), (0x116B8, 0x116B8),
      (0x116C0, 0x116C9), (0x11700, 0x1171A), (0x11730, 0x1173B), (0x11740, 0x11746),
      (0x11800, 0x1182B), (0x118A0, 0x118F2), (0x118FF, 0x11906), (0x11909, 0x11909),
      (0x1190C, 0x11913), (0x11915, 0x11916), (0x11918, 0x1192F), (0x1193F, 0x1193F),
      (0x11941, 0x11941), (0x11950, 0x11959), (0x119A0, 0x119A7), (0x119AA, 0x119D0),
      (0x119E1, 0x119E1), (0x119E3, 0x119E3), (0x11A00, 0x11A00), (0x11A0B, 0x11A32),
      (0x11A3A, 0x11A3A), (0x11A50, 0x11A50), (0x11A5C, 0x11A89), (0x11A9D, 0x11A9D),
      (0x11AB0, 0x11AF8), (0x11C00, 0x11C08), (0x11C0A, 0x11C2E), (0x11C40, 0x11C40),
      (0x11C50, 0x11C6C), (0x11C72, 0x11C8F), (0x11D00, 0x11D06), (0x11D08, 0x11D09),
      (0x11D0B, 0x11D30), (0x11D46, 0x11D46), (0x11D50, 0x11D59), (0x11D60, 0x11D65),
      (0x11D67, 0x11D68), (0x11D6A, 0x11D89), (0x11D98, 0x11D98), (0x11DA0, 0x11DA9),
      (0x11EE0, 0x11EF2), (0x11FB0, 0x11FB0)]"

definition word_ranges_13 :: "(nat \<times> nat) list" where
  "word_ranges_13 =
     [(0x11FC0, 0x11FD4), (0x12000, 0x12399), (0x12400, 0x1246E), (0x12480, 0x12543),
      (0x12F90, 0x12FF0), (0x13000, 0x1342E), (0x14400, 0x14646), (0x16800, 0x16A38),
      (0x16A40, 0x16A5E), (0x16A60, 0x16A69), (0x16A70, 0x16ABE), (0x16AC0, 0x16AC9),
      (0x16AD0, 0x16AED), (0x16B00, 0x16B2F), (0x16B40, 0x16B43), (0x16B50, 0x16B59),
      (0x16B5B, 0x16B61), (0x16B63, 0x16B77), (0x16B7D, 0x16B8F), (0x16E40, 0x16E96),
      (0x16F00, 0x16F4A), (0x16F50, 0x16F50), (0x16F93, 0x16F9F), (0x16FE0, 0x16FE1),
      (0x16FE3, 0x16FE3), (0x17000, 0x187F7), (0x18800, 0x18CD5), (0x18D00, 0x18D08),
      (0x1AFF0, 0x1AFF3), (0x1AFF5, 0x1AFFB), (0x1AFFD, 0x1AFFE), (0x1B000, 0x1B122),
      (0x1B150, 0x1B152), (0x1B164, 0x1B167), (0x1B170, 0x1B2FB), (0x1BC00, 0x1BC6A),
      (0x1BC70, 0x1BC7C), (0x1BC80, 0x1BC88), (0x1BC90, 0x1BC99), (0x1D2E0, 0x1D2F3),
      (0x1D360, 0x1D378), (0x1D400, 0x1D454), (0x1D456, 0x1D49C), (0x1D49E, 0x1D49F),
      (0x1D4A2, 0x1D4A2), (0x1D4A5, 0x1D4A6)]"

definition word_ranges_14 :: "(nat \<times> nat) list" where
  "word_ranges_14 =
     [(0x1D4A9, 0x1D4AC), (0x1D4AE, 0x1D4B9), (0x1D4BB, 0x1D4BB), (0x1D4BD, 0x1D4C3),
      (0x1D4C5, 0x1D505), (0x1D507, 0x1D50A), (0x1D50D, 0x1D514), (0x1D516, 0x1D51C),
      (0x1D51E, 0x1D539), (0x1D53B, 0x1D53E), (0x1D540, 0x1D544), (0x1D546, 0x1D546),
      (0x1D54A, 0x1D550), (0x1D552, 0x1D6A5), (0x1D6A8, 0x1D6C0), (0x1D6C2, 0x1D6DA),
      (0x1D6DC, 0x1D6FA), (0x1D6FC, 0x1D714), (0x1D716, 0x1D734), (0x1D736, 0x1D74E),
      (0x1D750, 0x1D76E), (0x1D770, 0x1D788), (0x1D78A, 0x1D7A8), (0x1D7AA, 0x1D7C2),
      (0x1D7C4, 0x1D7CB), (0x1D7CE, 0x1D7FF), (0x1DF00, 0x1DF1E), (0x1E100, 0x1E12C),
      (0x1E137, 0x1E13D), (0x1E140, 0x1E149), (0x1E14E, 0x1E14E), (0x1E290, 0x1E2AD),
      (0x1E2C0, 0x1E2EB), (0x1E2F0, 0x1E2F9), (0x1E7E0, 0x1E7E6), (0x1E7E8, 0x1E7EB),
      (0x1E7ED, 0x1E7EE), (0x1E7F0, 0x1E7FE), (0x1E800, 0x1E8C4), (0x1E8C7, 0x1E8CF),
      (0x1E900, 0x1E943), (0x1E94B, 0x1E94B), (0x1E950, 0x1E959), (0x1EC71, 0x1ECAB),
      (0x1ECAD, 0x1ECAF), (0x1ECB1, 0x1ECB4)]"

definition word_ranges_15 :: "(nat \<times> nat) list" where
  "word_ranges_15 =
     [(0x1ED01, 0x1ED2D), (0x1ED2F, 0x1ED3D), (0x1EE00, 0x1EE03), (0x1EE05, 0x1EE1F),
      (0x1EE21, 0x1EE22), (0x1EE24, 0x1EE24), (0x1EE27, 0x1EE27), (0x1EE29, 0x1EE32),
      (0x1EE34, 0x1EE37), (0x1EE39, 0x1EE39), (0x1EE3B, 0x1EE3B), (0x1EE42, 0x1EE42),
      (0x1EE47, 0x1EE47), (0x1EE49, 0x1EE49), (0x1EE4B, 0x1EE4B), (0x1EE4D, 0x1EE4F),
      (0x1EE51, 0x1EE52), (0x1EE54, 0x1EE54), (0x1EE57, 0x1EE57), (0x1EE59, 0x1EE59),
      (0x1EE5B, 0x1EE5B), (0x1EE5D, 0x1EE5D), (0x1EE5F, 0x1EE5F), (0x1EE61, 0x1EE62),
      (0x1EE64, 0x1EE64), (0x1EE67, 0x1EE6A), (0x1EE6C, 0x1EE72), (0x1EE74, 0x1EE77),
      (0x1EE79, 0x1EE7C), (0x1EE7E, 0x1EE7E), (0x1EE80, 0x1EE89), (0x1EE8B, 0x1EE9B),
      (0x1EEA1, 0x1EEA3), (0x1EEA5, 0x1EEA9), (0x1EEAB, 0x1EEBB), (0x1F100, 0x1F10C),
      (0x1FBF0, 0x1FBF9), (0x20000, 0x2A6DF), (0x2A700, 0x2B738), (0x2B740, 0x2B81D),
      (0x2B820, 0x2CEA1), (0x2CEB0, 0x2EBE0), (0x2F800, 0x2FA1D), (0x30000, 0x3134A)]"

definition word_ranges_for :: "nat \<Rightarrow> (nat \<times> nat) list" where
  "word_ranges_for c =
     (if c \<le> 0x7F5 then word_ranges_0
      else if c \<le> 0xAB9 then word_ranges_1
      else if c \<le> 0xCDE then word_ranges_2
      else if c \<le> 0x1070 then word_ranges_3
      else if c \<le> 0x18A8 then word_ranges_4
      else if c \<le> 0x1FEC then word_ranges_5
      else if c \<le> 0x303C then word_ranges_6
      else if c \<le> 0xA9FE then word_ranges_7
      else if c \<le> 0xFF19 then word_ranges_8
      else if c \<le> 0x107B0 then word_ranges_9
      else if c \<le> 0x11037 then word_ranges_10
      else if c \<le> 0x1162F then word_ranges_11
      else if c \<le> 0x11FB0 then word_ranges_12
      else if c \<le> 0x1D4A6 then word_ranges_13
      else if c \<le> 0x1ECB4 then word_ranges_14
      else word_ranges_15)"

definition lower_table :: "(nat \<times> nat \<times> nat \<times> nat) list" where
  "lower_table =
     [(0x41, 0x5A, 1, 0x61), (0xC0, 0xD6, 1, 0xE0), (0xD8, 0xDE, 1, 0xF8),
      (0x100, 0x12E, 2, 0x101), (0x132, 0x136, 2, 0x133), (0x139, 0x147, 2, 0x13A),
      (0x14A, 0x176, 2, 0x14B), (0x178, 0x178, 1, 0xFF), (0x179, 0x17D, 2, 0x17A),
      (0x181, 0x181, 1, 0x253), (0x182, 0x184, 2, 0x183), (0x186, 0x186, 1, 0x254),
      (0x187, 0x187, 1, 0x188), (0x189, 0x18A, 1, 0x256), (0x18B, 0x18B, 1, 0x18C),
      (0x18E, 0x18E, 1, 0x1DD), (0x18F, 0x18F, 1, 0x259), (0x190, 0x190, 1, 0x25B),
      (0x191, 0x191, 1, 0x192), (0x193, 0x193, 1, 0x260), (0x194, 0x194, 1, 0x263),
      (0x196, 0x196, 1, 0x269), (0x197, 0x197, 1, 0x268), (0x198, 0x198, 1, 0x199),
      (0x19C, 0x19C, 1, 0x26F), (0x19D, 0x19D, 1, 0x272), (0x19F, 0x19F, 1, 0x275),
      (0x1A0, 0x1A4, 2, 0x1A1), (0x1A6, 0x1A6, 1, 0x280), (0x1A7, 0x1A7, 1, 0x1A8),
      (0x1A9, 0x1A9, 1, 0x283), (0x1AC, 0x1AC, 1, 0x1AD), (0x1AE, 0x1AE, 1, 0x288),
      (0x1AF, 0x1AF, 1, 0x1B0), (0x1B1, 0x1B2, 1, 0x28A), (0x1B3, 0x1B5, 2, 0x1B4),
      (0x1B7, 0x1B7, 1, 0x292), (0x1B8, 0x1B8, 1, 0x1B9), (0x1BC, 0x1BC, 1, 0x1BD),
      (0x1C4, 0x1C4, 1, 0x1C6), (0x1C5, 0x1C5, 1, 0x1C6), (0x1C7, 0x1C7, 1, 0x1C9),
      (0x1C8, 0x1C8, 1, 0x1C9), (0x1CA, 0x1CA, 1, 0x1CC), (0x1CB, 0x1DB, 2, 0x1CC),
      (0x1DE, 0x1EE, 2, 0x1DF), (0x1F1, 0x1F1, 1, 0x1F3), (0x1F2, 0x1F4, 2, 0x1F3),
      (0x1F6, 0x1F6, 1, 0x195), (0x1F7, 0x1F7, 1, 0x1BF), (0x1F8, 0x21E, 2, 0x1F9),
      (0x220, 0x220, 1, 0x19E), (0x222, 0x232, 2, 0x223), (0x23A, 0x23A, 1, 0x2C65),
      (0x23B, 0x23B, 1, 0x23C), (0x23D, 0x23D, 1, 0x19A), (0x23E, 0x23E, 1, 0x2C66),
      (0x241, 0x241, 1, 0x242), (0x243, 0x243, 1, 0x180), (0x244, 0x244, 1, 0x289),
      (0x245, 0x245, 1, 0x28C), (0x246, 0x24E, 2, 0x247), (0x370, 0x372, 2, 0x371),
      (0x376, 0x376, 1, 0x377), (0x37F, 0x37F, 1, 0x3F3), (0x386, 0x386, 1, 0x3AC),
      (0x388, 0x38A, 1, 0x3AD), (0x38C, 0x38C, 1, 0x3CC), (0x38E, 0x38F, 1, 0x3CD),
      (0x391, 0x3A1, 1, 0x3B1), (0x3A3, 0x3AB, 1, 0x3C3), (0x3CF, 0x3CF, 1, 0x3D7),
      (0x3D8, 0x3EE, 2, 0x3D9), (0x3F4, 0x3F4, 1, 0x3B8), (0x3F7, 0x3F7, 1, 0x3F8),
      (0x3F9, 0x3F9, 1, 0x3F2), (0x3FA, 0x3FA, 1, 0x3FB), (0x3FD, 0x3FF, 1, 0x37B),
      (0x400, 0x40F, 1, 0x450), (0x410, 0x42F, 1, 0x430), (0x460, 0x480, 2, 0x461),
      (0x48A, 0x4BE, 2, 0x48B), (0x4C0, 0x4C0, 1, 0x4CF), (0x4C1, 0x4CD, 2, 0x4C2),
      (0x4D0, 0x52E, 2, 0x4D1), (0x531, 0x556, 1, 0x561), (0x10A0, 0x10C5, 1, 0x2D00),
      (0x10C7, 0x10C7, 1, 0x2D27), (0x10CD, 0x10CD, 1, 0x2D2D), (0x13A0, 0x13EF, 1, 0xAB70),
      (0x13F0, 0x13F5, 1, 0x13F8), (0x1C90, 0x1CBA, 1, 0x10D0), (0x1CBD, 0x1CBF, 1, 0x10FD),
      (0x1E00, 0x1E94, 2, 0x1E01), (0x1E9E, 0x1E9E, 1, 0xDF), (0x1EA0, 0x1EFE, 2, 0x1EA1),
      (0x1F08, 0x1F0F, 1, 0x1F00), (0x1F18, 0x1F1D, 1, 0x1F10), (0x1F28, 0x1F2F, 1, 0x1F20),
      (0x1F38, 0x1F3F, 1, 0x1F30), (0x1F48, 0x1F4D, 1, 0x1F40), (0x1F59, 0x1F5F, 2, 0x1F51),
      (0x1F68, 0x1F6F, 1, 0x1F60), (0x1F88, 0x1F8F, 1, 0x1F80), (0x1F98, 0x1F9F, 1, 0x1F90),
      (0x1FA8, 0x1FAF, 1, 0x1FA0), (0x1FB8, 0x1FB9, 1, 0x1FB0), (0x1FBA, 0x1FBB, 1, 0x1F70),
      (0x1FBC, 0x1FBC, 1, 0x1FB3), (0x1FC8, 0x1FCB, 1, 0x1F72), (0x1FCC, 0x1FCC, 1, 0x1FC3),
      (0x1FD8, 0x1FD9, 1, 0x1FD0), (0x1FDA, 0x1FDB, 1, 0x1F76), (0x1FE8, 0x1FE9, 1, 0x1FE0),
      (0x1FEA, 0x1FEB, 1, 0x1F7A), (0x1FEC, 0x1FEC, 1, 0x1FE5), (0x1FF8, 0x1FF9, 1, 0x1F78),
      (0x1FFA, 0x1FFB, 1, 0x1F7C), (0x1FFC, 0x1FFC, 1, 0x1FF3), (0x2126, 0x2126, 1, 0x3C9),
      (0x212A, 0x212A, 1, 0x6B), (0x212B, 0x212B, 1, 0xE5), (0x2132, 0x2132, 1, 0x214E),
      (0x2160, 0x216F, 1, 0x2170), (0x2183, 0x2183, 1, 0x2184), (0x24B6, 0x24CF, 1, 0x24D0),
      (0x2C00, 0x2C2F, 1, 0x2C30), (0x2C60, 0x2C60, 1, 0x2C61), (0x2C62, 0x2C62, 1, 0x26B),
      (0x2C63, 0x2C63, 1, 0x1D7D), (0x2C64, 0x2C64, 1, 0x27D), (0x2C67, 0x2C6B, 2, 0x2C68),
      (0x2C6D, 0x2C6D, 1, 0x251), (0x2C6E, 0x2C6E, 1, 0x271), (0x2C6F, 0x2C6F, 1, 0x250),
      (0x2C70, 0x2C70, 1, 0x252), (0x2C72, 0x2C72, 1, 0x2C73), (0x2C75, 0x2C75, 1, 0x2C76),
      (0x2C7E, 0x2C7F, 1, 0x23F), (0x2C80, 0x2CE2, 2, 0x2C81), (0x2CEB, 0x2CED, 2, 0x2CEC),
      (0x2CF2, 0x2CF2, 1, 0x2CF3), (0xA640, 0xA66C, 2, 0xA641), (0xA680, 0xA69A, 2, 0xA681),
      (0xA722, 0xA72E, 2, 0xA723), (0xA732, 0xA76E, 2, 0xA733), (0xA779, 0xA77B, 2, 0xA77A),
      (0xA77D, 0xA77D, 1, 0x1D79), (0xA77E, 0xA786, 2, 0xA77F), (0xA78B, 0xA78B, 1, 0xA78C),
      (0xA78D, 0xA78D, 1, 0x265), (0xA790, 0xA792, 2, 0xA791), (0xA796, 0xA7A8, 2, 0xA797),
      (0xA7AA, 0xA7AA, 1, 0x266), (0xA7AB, 0xA7AB, 1, 0x25C), (0xA7AC, 0xA7AC, 1, 0x261),
      (0xA7AD, 0xA7AD, 1, 0x26C), (0xA7AE, 0xA7AE, 1, 0x26A), (0xA7B0, 0xA7B0, 1, 0x29E),
      (0xA7B1, 0xA7B1, 1, 0x287), (0xA7B2, 0xA7B2, 1, 0x29D), (0xA7B3, 0xA7B3, 1, 0xAB53),
      (0xA7B4, 0xA7C2, 2, 0xA7B5), (0xA7C4, 0xA7C4, 1, 0xA794), (0xA7C5, 0xA7C5, 1, 0x282),
      (0xA7C6, 0xA7C6, 1, 0x1D8E), (0xA7C7, 0xA7C9, 2, 0xA7C8), (0xA7D0, 0xA7D0, 1, 0xA7D1),
      (0xA7D6, 0xA7D8, 2, 0xA7D7), (0xA7F5, 0xA7F5, 1, 0xA7F6), (0xFF21, 0xFF3A, 1, 0xFF41),
      (0x10400, 0x10427, 1, 0x10428), (0x104B0, 0x104D3, 1, 0x104D8),
      (0x10570, 0x1057A, 1, 0x10597), (0x1057C, 0x1058A, 1, 0x105A3),
      (0x1058C, 0x10592, 1, 0x105B3), (0x10594, 0x10595, 1, 0x105BB),
      (0x10C80, 0x10CB2, 1, 0x10CC0), (0x118A0, 0x118BF, 1, 0x118C0),
      (0x16E40, 0x16E5F, 1, 0x16E60), (0x1E900, 0x1E921, 1, 0x1E922)]"

definition is_digit :: "nat \<Rightarrow> bool" where
  "is_digit c = in_ranges digit_ranges c"

definition is_space :: "nat \<Rightarrow> bool" where
  "is_space c = in_ranges space_ranges c"

definition is_word :: "nat \<Rightarrow> bool" where
  "is_word c = in_ranges (word_ranges_for c) c"

text \<open>
  The value of a decimal digit: every range of \<open>digit_ranges\<close> starts at a digit zero
  and runs through whole decades.
\<close>

fun digit_value_in :: "(nat \<times> nat) list \<Rightarrow> nat \<Rightarrow> nat" where
  "digit_value_in [] c = 0"
| "digit_value_in ((lo, hi) # rs) c =
     (if lo \<le> c \<and> c \<le> hi then (c - lo) mod 10 else digit_value_in rs c)"

definition digit_value :: "nat \<Rightarrow> nat" where
  "digit_value c = digit_value_in digit_ranges c"

text \<open>
  \<open>str.lower\<close>: an entry \<open>(lo, hi, step, tgt)\<close> of \<open>lower_table\<close> maps every
  \<open>step\<close>-th code point from \<open>lo\<close> to \<open>hi\<close> to \<open>tgt\<close> plus its offset. U+0130 is the
  one code point whose lower case is two code points. The context rule that turns a
  word-final capital sigma (U+03A3) into U+03C2 is not modelled: U+03A3 always becomes
  U+03C3. No constant of the engine contains a sigma.
\<close>

fun lower_in :: "(nat \<times> nat \<times> nat \<times> nat) list \<Rightarrow> nat \<Rightarrow> nat" where
  "lower_in [] c = c"
| "lower_in ((lo, hi, step, tgt) # rs) c =
     (if lo \<le> c \<and> c \<le> hi \<and> (c - lo) mod step = 0 then tgt + (c - lo) else lower_in rs c)"

definition py_lower_char :: "nat \<Rightarrow> ustr" where
  "py_lower_char c = (if c = 0x130 then [0x69, 0x307] else [lower_in lower_table c])"

definition py_lower :: "ustr \<Rightarrow> ustr" where
  "py_lower s = concat (map py_lower_char s)"

section \<open>Regular expressions\<close>

text \<open>
  The patterns of the source use literals, character classes, concatenation, alternation
  and repetition only, so whether \<open>re.search\<close> finds a match is membership of some
  substring in the pattern's language. It is decided with Brzozowski derivatives.
\<close>

datatype rx = Nul | Eps | Cls "nat \<Rightarrow> bool" | Cat rx rx | Alt rx rx | Star rx

fun nullable :: "rx \<Rightarrow> bool" where
  "nullable Nul = False"
| "nullable Eps = True"
| "nullable (Cls p) = False"
| "nullable (Cat r s) = (nullable r \<and> nullable s)"
| "nullable (Alt r s) = (nullable r \<or> nullable s)"
| "nullable (Star r) = True"

fun deriv :: "nat \<Rightarrow> rx \<Rightarrow> rx" where
  "deriv c Nul = Nul"
| "deriv c Eps = Nul"
| "deriv c (Cls p) = (if p c then Eps else Nul)"
| "deriv c (Cat r s) =
     (if nullable r then Alt (Cat (deriv c r) s) (deriv c s) else Cat (deriv c r) s)"
| "deriv c (Alt r s) = Alt (deriv c r) (deriv c s)"
| "deriv c (Star r) = Cat (deriv c r) (Star r)"

text \<open>\<open>re.match\<close>: some prefix of the text is in the language.\<close>

fun re_match :: "rx \<Rightarrow> ustr \<Rightarrow> bool" where
  "re_match r [] = nullable r"
| "re_match r (c # cs) = (if nullable r then True else re_match (deriv c r) cs)"

text \<open>\<open>re.search\<close>: a match starts at some position of the text.\<close>

fun re_search :: "rx \<Rightarrow> ustr \<Rightarrow> bool" where
  "re_search r [] = nullable r"
| "re_search r (c # cs) = (if re_match r (c # cs) then True else re_search r cs)"

definition Chr :: "nat \<Rightarrow> rx" where
  "Chr c = Cls (\<lambda>x. x = c)"

fun Str :: "ustr \<Rightarrow> rx" where
  "Str [] = Eps"
| "Str (c # cs) = Cat (Chr c) (Str cs)"

definition Plus :: "rx \<Rightarrow> rx" where
  "Plus r = Cat r (Star r)"

fun Rep :: "nat \<Rightarrow> rx \<Rightarrow> rx" where
  "Rep 0 r = Eps"
| "Rep (Suc n) r = Cat r (Rep n r)"

definition Digit :: rx where
  "Digit = Cls is_digit"

text \<open>The dot matches every character but the newline.\<close>

definition Dot :: rx where
  "Dot = Cls (\<lambda>c. c \<noteq> 0x0A)"

section \<open>Data model\<close>

text \<open>
  \<open>RiskLevel\<close>, \<open>DetectionResult\<close> and \<open>DetectionStats\<close> are declared in
  \<open>app/models/detection.py\<close>; their fields are the ones the engine reads and writes.
  The fallback result of \<open>detect_text\<close> passes no categories and no keywords; both are
  taken to default to the empty list. The field \<open>keywords\<close> is named
  \<open>matched_keywords\<close> here.
\<close>

datatype RiskLevel = SAFE | WARNING | DANGER

record DetectionResult =
  level :: RiskLevel
  score :: real
  confidence :: real
  message :: ustr
  reasons :: "ustr list"
  suggestions :: "ustr list"
  categories :: "ustr list"
  matched_keywords :: "ustr list"
  detection_id :: ustr

record DetectionStats =
  total_detections :: int
  safe_count :: int
  warning_count :: int
  danger_count :: int
  avg_processing_time :: real

section \<open>The keyword table\<close>

text \<open>
  \<open>_load_keywords\<close>: four categories in the order of the dictionary literal, each with
  its trigger phrases in source order.
\<close>

definition s_financial_fraud :: ustr where
  "s_financial_fraud = [0x66, 0x69, 0x6E, 0x61, 0x6E, 0x63, 0x69, 0x61, 0x6C, 0x5F, 0x66, 0x72, 0x61, 0x75, 0x64]"

definition s_medical_fraud :: ustr where
  "s_medical_fraud = [0x6D, 0x65, 0x64, 0x69, 0x63, 0x61, 0x6C, 0x5F, 0x66, 0x72, 0x61, 0x75, 0x64]"

definition s_general_fraud :: ustr where
  "s_general_fraud = [0x67, 0x65, 0x6E, 0x65, 0x72, 0x61, 0x6C, 0x5F, 0x66, 0x72, 0x61, 0x75, 0x64]"

definition s_emotional_manipulation :: ustr where
  "s_emotional_manipulation = [0x65, 0x6D, 0x6F, 0x74, 0x69, 0x6F, 0x6E, 0x61, 0x6C, 0x5F, 0x6D, 0x61, 0x6E, 0x69, 0x70, 0x75, 0x6C, 0x61, 0x74, 0x69, 0x6F, 0x6E]"

definition financial_fraud_keywords :: "ustr list" where
  "financial_fraud_keywords =
     [[0x4FDD, 0x8BC1, 0x6536, 0x76CA], [0x65E0, 0x98CE, 0x9669, 0x6295, 0x8D44], [0x6708, 0x5165, 0x4E07, 0x5143], [0x7A33, 0x8D5A, 0x4E0D, 0x8D54], [0x9AD8, 0x6536, 0x76CA], [0x5185, 0x5E55, 0x6D88, 0x606F], [0x80A1, 0x7968, 0x63A8, 0x8350], [0x671F, 0x8D27, 0x9EC4, 0x91D1], [0x865A, 0x62DF, 0x8D27, 0x5E01], [0x6570, 0x5B57, 0x8D27, 0x5E01], [0x6316, 0x77FF], [0x69, 0x63, 0x6F], [0x533A, 0x5757, 0x94FE, 0x6295, 0x8D44], [0x5916, 0x6C47, 0x4EA4, 0x6613], [0x539F, 0x6CB9, 0x6295, 0x8D44], [0x8D35, 0x91D1, 0x5C5E, 0x6295, 0x8D44], [0x90AE, 0x5E01, 0x5361], [0x827A, 0x672F, 0x54C1, 0x6295, 0x8D44], [0x7EA2, 0x9152, 0x6295, 0x8D44], [0x4F20, 0x9500], [0x5FAE, 0x5546], [0x4EE3, 0x7406], [0x52A0, 0x76DF, 0x8D39], [0x5165, 0x4F1A, 0x8D39], [0x4F1A, 0x5458, 0x8D39], [0x62C9, 0x4EBA, 0x5934], [0x5C42, 0x7EA7, 0x5206, 0x9500], [0x91D1, 0x5B57, 0x5854], [0x591A, 0x5C42, 0x6B21, 0x8425, 0x9500], [0x65E0, 0x62B5, 0x62BC, 0x8D37, 0x6B3E], [0x79D2, 0x6279], [0x9ED1, 0x6237, 0x8D37, 0x6B3E], [0x5F81, 0x4FE1, 0x4FEE, 0x590D], [0x4EE3, 0x529E, 0x4FE1, 0x7528, 0x5361], [0x82B1, 0x5457, 0x63D0, 0x73B0], [0x501F, 0x5457, 0x5957, 0x73B0], [0x7F51, 0x8D37], [0x88F8, 0x8D37], [0x9AD8, 0x5229, 0x8D37], [0x4FE1, 0x7528, 0x5361, 0x5957, 0x73B0], [0x70, 0x6F, 0x73, 0x673A], [0x5237, 0x5355], [0x4EE3, 0x8FD8, 0x4FE1, 0x7528, 0x5361], [0x9650, 0x65F6, 0x4F18, 0x60E0], [0x9A6C, 0x4E0A, 0x884C, 0x52A8], [0x673A, 0x4F1A, 0x96BE, 0x5F97], [0x4E0D, 0x8981, 0x9519, 0x8FC7], [0x7ACB, 0x5373, 0x62A2, 0x8D2D], [0x4EC5, 0x9650, 0x4ECA, 0x5929], [0x540D, 0x989D, 0x6709, 0x9650], [0x5148, 0x5230, 0x5148, 0x5F97], [0x7EDD, 0x5BC6, 0x6D88, 0x606F]]"

definition medical_fraud_keywords :: "ustr list" where
  "medical_fraud_keywords =
     [[0x5305, 0x6CBB, 0x767E, 0x75C5], [0x795E, 0x5947, 0x7597, 0x6548], [0x7956, 0x4F20, 0x79D8, 0x65B9], [0x4E00, 0x6B21, 0x6839, 0x6CBB], [0x6C38, 0x4E0D, 0x590D, 0x53D1], [0x836F, 0x5230, 0x75C5, 0x9664], [0x7ACB, 0x7AFF, 0x89C1, 0x5F71], [0x5947, 0x8FF9, 0x822C, 0x5EB7, 0x590D], [0x7EDD, 0x5BF9, 0x6709, 0x6548], [0x31, 0x30, 0x30, 0x25, 0x6CBB, 0x6108], [0x4E09, 0x5929, 0x89C1, 0x6548], [0x4E00, 0x5468, 0x5EB7, 0x590D], [0x533B, 0x9662, 0x4E0D, 0x544A, 0x8BC9, 0x4F60], [0x533B, 0x751F, 0x90FD, 0x5728, 0x7528], [0x4E13, 0x5BB6, 0x63A8, 0x8350], [0x6743, 0x5A01, 0x8BA4, 0x8BC1], [0x56FD, 0x9645, 0x9886, 0x5148], [0x8BFA, 0x8D1D, 0x5C14, 0x5956], [0x7F8E, 0x56FD, 0x8FDB, 0x53E3], [0x5FB7, 0x56FD, 0x6280, 0x672F], [0x4E2D, 0x79D1, 0x9662, 0x7814, 0x53D1], [0x519B, 0x5DE5, 0x6280, 0x672F], [0x822A, 0x5929, 0x79D1, 0x6280], [0x764C, 0x75C7, 0x514B, 0x661F], [0x5EF6, 0x5E74, 0x76CA, 0x5BFF], [0x6392, 0x6BD2, 0x517B, 0x989C], [0x51CF, 0x80A5, 0x795E, 0x5668], [0x58EE, 0x9633, 0x8865, 0x80BE], [0x4E30, 0x80F8, 0x7F8E, 0x767D], [0x6297, 0x8870, 0x8001], [0x589E, 0x9AD8, 0x795E, 0x5668], [0x660E, 0x76EE, 0x62A4, 0x773C], [0x62A4, 0x809D, 0x517B, 0x80C3], [0x8865, 0x8111, 0x76CA, 0x667A], [0x5F3A, 0x8EAB, 0x5065, 0x4F53], [0x4FDD, 0x5065, 0x54C1], [0x8425, 0x517B, 0x54C1], [0x7279, 0x6548, 0x836F], [0x504F, 0x65B9], [0x571F, 0x65B9], [0x6C11, 0x95F4, 0x9A8C, 0x65B9], [0x5BAB, 0x5EF7, 0x79D8, 0x65B9], [0x53E4, 0x65B9], [0x4E2D, 0x836F, 0x79D8, 0x65B9], [0x4E09, 0x65E0, 0x4EA7, 0x54C1], [0x5047, 0x836F], [0x8FDD, 0x7981, 0x836F], [0x6FC0, 0x7D20, 0x836F]]"

definition general_fraud_keywords :: "ustr list" where
  "general_fraud_keywords =
     [[0x52A0, 0x5FAE, 0x4FE1], [0x8054, 0x7CFB, 0x71, 0x71], [0x79C1, 0x4FE1, 0x6211], [0x7559, 0x7535, 0x8BDD], [0x626B, 0x7801, 0x8FDB, 0x7FA4], [0x5FAE, 0x4FE1, 0x53F7], [0x71, 0x71, 0x7FA4], [0x7535, 0x8BDD, 0x54A8, 0x8BE2], [0x5728, 0x7EBF, 0x5BA2, 0x670D], [0x8054, 0x7CFB, 0x5BA2, 0x670D], [0x8F6C, 0x8D26], [0x6C47, 0x6B3E], [0x652F, 0x4ED8, 0x5B9D], [0x5FAE, 0x4FE1, 0x652F, 0x4ED8], [0x94F6, 0x884C, 0x5361], [0x6253, 0x6B3E], [0x9884, 0x4ED8, 0x6B3E], [0x5B9A, 0x91D1], [0x62BC, 0x91D1], [0x4FDD, 0x8BC1, 0x91D1], [0x624B, 0x7EED, 0x8D39], [0x4E2D, 0x5956], [0x606D, 0x559C, 0x83B7, 0x5956], [0x5E78, 0x8FD0, 0x7528, 0x6237], [0x514D, 0x8D39, 0x9886, 0x53D6], [0x30, 0x5143, 0x8D2D], [0x79D2, 0x6740], [0x7279, 0x4EF7], [0x6E05, 0x4ED3], [0x4E8F, 0x672C, 0x7529, 0x5356], [0x8DF3, 0x697C, 0x4EF7], [0x8D76, 0x7D27], [0x7ACB, 0x5373], [0x9A6C, 0x4E0A], [0x5FEB, 0x901F], [0x7D27, 0x6025], [0x9650, 0x65F6], [0x622A, 0x6B62, 0x4ECA, 0x665A], [0x6700, 0x540E, 0x4E00, 0x5929], [0x9519, 0x8FC7, 0x540E, 0x6094], [0x673A, 0x4E0D, 0x53EF, 0x5931]]"

definition emotional_manipulation_keywords :: "ustr list" where
  "emotional_manipulation_keywords =
     [[0x53EF, 0x601C], [0x6551, 0x6551], [0x5E2E, 0x5E2E], [0x6C42, 0x52A9], [0x6350, 0x6B3E], [0x7231, 0x5FC3], [0x5584, 0x5FC3], [0x505A, 0x597D, 0x4E8B], [0x79EF, 0x5FB7], [0x529F, 0x5FB7], [0x62A5, 0x5E94], [0x56E0, 0x679C], [0x8001, 0x4EBA], [0x5B69, 0x5B50], [0x75C5, 0x4EBA], [0x6B8B, 0x75BE], [0x56F0, 0x96BE], [0x8D2B, 0x56F0]]"

definition load_keywords :: "(ustr \<times> ustr list) list" where
  "load_keywords =
     [(s_financial_fraud, financial_fraud_keywords),
      (s_medical_fraud, medical_fraud_keywords),
      (s_general_fraud, general_fraud_keywords),
      (s_emotional_manipulation, emotional_manipulation_keywords)]"

section \<open>Text preprocessing\<close>

text \<open>\<open>re.sub(r'\s+', ' ', text)\<close>: every maximal run of whitespace becomes one space.\<close>

function collapse_ws :: "ustr \<Rightarrow> ustr" where
  "collapse_ws [] = []"
| "collapse_ws (c # cs) =
     (if is_space c then 0x20 # collapse_ws (dropWhile is_space cs) else c # collapse_ws cs)"
  by pat_completeness auto
termination
  by (relation "measure length") (auto simp: length_dropWhile_le less_Suc_eq_le)

text \<open>\<open>str.strip()\<close> removes leading and trailing whitespace.\<close>

definition py_strip :: "ustr \<Rightarrow> ustr" where
  "py_strip s = rev (dropWhile is_space (rev (dropWhile is_space s)))"

text \<open>
  The class \<open>[^U+4E00-U+9FFF \w \s .,!?;:() ...]\<close> of the second substitution: a character
  is kept when it is a CJK ideograph, a word character, whitespace or one of the listed
  ASCII and full-width punctuation marks.
\<close>

definition kept_punctuation :: "nat list" where
  "kept_punctuation = [0x2E, 0x2C, 0x21, 0x3F, 0x3B, 0x3A, 0x28, 0x29, 0xFF08, 0xFF09, 0xFF01, 0xFF1F, 0xFF1B, 0xFF1A, 0x3001, 0x3002, 0xFF0C]"

definition is_kept :: "nat \<Rightarrow> bool" where
  "is_kept c =
     (if 0x4E00 \<le> c \<and> c \<le> 0x9FFF then True
      else if c \<in> set kept_punctuation then True
      else if is_space c then True
      else is_word c)"

definition preprocess_text :: "ustr \<Rightarrow> ustr" where
  "preprocess_text text =
     (let text = py_lower text;
          text = py_strip (collapse_ws text);
          text = filter is_kept text
      in text)"

section \<open>Signal detectors\<close>

text \<open>The running \<open>score\<close> of a detector is the accumulator \<open>acc\<close> here.\<close>

fun count_keyword_matches :: "ustr \<Rightarrow> ustr list \<Rightarrow> nat" where
  "count_keyword_matches text [] = 0"
| "count_keyword_matches text (keyword # rest) =
     (if py_in keyword text then 1 else 0) + count_keyword_matches text rest"

text \<open>Pattern \<open>[!...]{2,}|[?...]{2,}\<close> with the ASCII and the full-width marks.\<close>

definition rx_repeated_marks :: rx where
  "rx_repeated_marks =
     Alt (Cat (Rep 2 (Cls (\<lambda>c. c = 0x21 \<or> c = 0xFF01))) (Star (Cls (\<lambda>c. c = 0x21 \<or> c = 0xFF01))))
         (Cat (Rep 2 (Cls (\<lambda>c. c = 0x3F \<or> c = 0xFF1F))) (Star (Cls (\<lambda>c. c = 0x3F \<or> c = 0xFF1F))))"

definition excessive_adjectives :: "ustr list" where
  "excessive_adjectives =
     [[0x795E, 0x5947], [0x7EDD, 0x5BF9], [0x5B8C, 0x7F8E], [0x9876, 0x7EA7],
      [0x6781, 0x54C1], [0x53F2, 0x4E0A, 0x6700], [0x4E16, 0x754C, 0x7EA7]]"

text \<open>Pattern \<open>\d+X|YYY\d+|\d+%\<close> (times, per cent spelled out, per cent sign).\<close>

definition rx_exaggerated_number :: rx where
  "rx_exaggerated_number =
     Alt (Cat (Plus Digit) (Chr 0x500D))
         (Alt (Cat (Str [0x767E, 0x5206, 0x4E4B]) (Plus Digit))
              (Cat (Plus Digit) (Chr 0x25)))"

fun add_adjectives :: "ustr \<Rightarrow> ustr list \<Rightarrow> real \<Rightarrow> real" where
  "add_adjectives text [] acc = acc"
| "add_adjectives text (adj # rest) acc =
     add_adjectives text rest (if py_in adj text then acc + 0.05 else acc)"

definition detect_language_patterns :: "ustr \<Rightarrow> real" where
  "detect_language_patterns text =
     (let acc = 0;
          acc = (if re_search rx_repeated_marks text then acc + 0.1 else acc);
          acc = add_adjectives text excessive_adjectives acc;
          acc = (if re_search rx_exaggerated_number text then acc + 0.05 else acc)
      in min acc 0.3)"

text \<open>The four contact patterns, in source order.\<close>

definition contact_patterns :: "rx list" where
  "contact_patterns =
     [Alt (Str [0x5FAE, 0x4FE1]) (Alt (Str [0x71, 0x71]) (Alt (Str [0x7535, 0x8BDD])
        (Alt (Str [0x624B, 0x673A]) (Str [0x8054, 0x7CFB])))),
      Rep 11 Digit,
      Cat (Str [0x71, 0x71, 0x3A]) (Cat (Star (Cls is_space)) (Plus Digit)),
      Cat (Str [0x5FAE, 0x4FE1, 0x3A]) (Cat (Star (Cls is_space)) (Plus (Cls is_word)))]"

fun add_patterns :: "ustr \<Rightarrow> rx list \<Rightarrow> real \<Rightarrow> real" where
  "add_patterns text [] acc = acc"
| "add_patterns text (pattern # rest) acc =
     add_patterns text rest (if re_search pattern text then acc + 0.05 else acc)"

definition detect_contact_info :: "ustr \<Rightarrow> real" where
  "detect_contact_info text = min (add_patterns text contact_patterns 0) 0.2"

definition urgency_words :: "ustr list" where
  "urgency_words =
     [[0x8D76, 0x7D27], [0x7ACB, 0x5373], [0x9A6C, 0x4E0A], [0x5FEB, 0x901F],
      [0x7D27, 0x6025], [0x9650, 0x65F6], [0x622A, 0x6B62], [0x6700, 0x540E]]"

definition detect_urgency :: "ustr \<Rightarrow> real" where
  "detect_urgency text =
     (let count = length (filter (\<lambda>word. py_in word text) urgency_words)
      in min (real count * 0.05) 0.2)"

text \<open>
  \<open>re.findall(r'(\d+)%', text)\<close>: the digit groups of the non-overlapping matches from
  left to right. A match can only start at the first digit of a maximal run of digits and
  then takes the whole run, which must be followed by the per cent sign: after a shorter
  prefix of the run comes a digit.
\<close>

function findall_percent :: "ustr \<Rightarrow> ustr list" where
  "findall_percent [] = []"
| "findall_percent (c # cs) =
     (if is_digit c then
        (case dropWhile is_digit cs of
           [] \<Rightarrow> []
         | r # rs \<Rightarrow>
             if r = 0x25 then (c # takeWhile is_digit cs) # findall_percent rs
             else findall_percent rs)
      else findall_percent cs)"
  by pat_completeness auto
termination
proof (relation "measure length")
  show "wf (measure length)" by simp
next
  fix c cs r rs
  assume "dropWhile is_digit cs = r # rs"
  then have "length (r # rs) \<le> length cs"
    by (metis length_dropWhile_le)
  then have smaller: "(rs, c # cs) \<in> measure length" by simp
  show "(rs, c # cs) \<in> measure length" by (rule smaller)
  show "(rs, c # cs) \<in> measure length" by (rule smaller)
qed simp

text \<open>
  \<open>int(match)\<close> on a non-empty string of decimal digits. The interpreter refuses a
  string of more than \<open>sys.get_int_max_str_digits()\<close> digits (4300 unless configured)
  with a \<open>ValueError\<close>.
\<close>

definition int_max_str_digits :: nat where
  "int_max_str_digits = 4300"

definition py_int :: "ustr \<Rightarrow> py_error + int" where
  "py_int ds =
     (if length ds > int_max_str_digits then Inl ValueError
      else Inr (foldl (\<lambda>n c. 10 * n + int (digit_value c)) 0 ds))"

text \<open>Pattern \<open>(\d+)%.*YY|YY.*(\d+)%\<close>, where \<open>YY\<close> is the word for yield.\<close>

definition rx_yield :: rx where
  "rx_yield =
     Alt (Cat (Plus Digit) (Cat (Chr 0x25) (Cat (Star Dot) (Str [0x6536, 0x76CA]))))
         (Cat (Str [0x6536, 0x76CA]) (Cat (Star Dot) (Cat (Plus Digit) (Chr 0x25))))"

text \<open>The loop over the percentages: the first failing conversion aborts it.\<close>

fun add_high_rates :: "ustr list \<Rightarrow> real \<Rightarrow> py_error + real" where
  "add_high_rates [] acc = Inr acc"
| "add_high_rates (m # rest) acc =
     (case py_int m of
        Inl e \<Rightarrow> Inl e
      | Inr n \<Rightarrow> add_high_rates rest (if n > 20 then acc + 0.1 else acc))"

text \<open>Patterns \<open>(\d+)W\<close>, \<open>(\d+)Q\<close>, \<open>(\d+)Y\<close>: ten thousand, thousand, yuan.\<close>

definition money_patterns :: "rx list" where
  "money_patterns =
     [Cat (Plus Digit) (Chr 0x4E07), Cat (Plus Digit) (Chr 0x5343), Cat (Plus Digit) (Chr 0x5143)]"

definition detect_suspicious_numbers :: "ustr \<Rightarrow> py_error + real" where
  "detect_suspicious_numbers text =
     (case (if re_search rx_yield text then add_high_rates (findall_percent text) 0 else Inr 0) of
        Inl e \<Rightarrow> Inl e
      | Inr acc \<Rightarrow> Inr (min (add_patterns text money_patterns acc) 0.3))"

section \<open>Risk aggregation\<close>

text \<open>
  The local variables of \<open>_perform_detection\<close> that the detectors update in turn.
\<close>

record detection_acc =
  risk_score :: real
  acc_reasons :: "ustr list"
  acc_suggestions :: "ustr list"
  acc_categories :: "ustr list"
  keywords_found :: "ustr list"

definition init_acc :: detection_acc where
  "init_acc =
     \<lparr>risk_score = 0, acc_reasons = [], acc_suggestions = [], acc_categories = [],
      keywords_found = []\<rparr>"

text \<open>The category-specific advice: two sentences, two sentences, one sentence, none.\<close>

definition category_suggestions :: "ustr \<Rightarrow> ustr list" where
  "category_suggestions category =
     (if category = s_financial_fraud then
        [[0x6295, 0x8D44, 0x9700, 0x8C28, 0x614E, 0xFF0C, 0x9AD8, 0x6536, 0x76CA, 0x5F80, 0x5F80, 0x4F34, 0x968F, 0x9AD8, 0x98CE, 0x9669],
         [0x4E0D, 0x8981, 0x8F7B, 0x6613, 0x76F8, 0x4FE1, 0x4FDD, 0x8BC1, 0x6536, 0x76CA, 0x7684, 0x6295, 0x8D44, 0x9879, 0x76EE]]
      else if category = s_medical_fraud then
        [[0x6709, 0x75C5, 0x8BF7, 0x627E, 0x6B63, 0x89C4, 0x533B, 0x9662, 0xFF0C, 0x4E0D, 0x8981, 0x8F7B, 0x4FE1, 0x504F, 0x65B9],
         [0x4FDD, 0x5065, 0x54C1, 0x4E0D, 0x80FD, 0x66FF, 0x4EE3, 0x836F, 0x7269, 0x6CBB, 0x7597]]
      else if category = s_general_fraud then
        [[0x8C28, 0x9632, 0x8BC8, 0x9A97, 0xFF0C, 0x4E0D, 0x8981, 0x8F7B, 0x6613, 0x8F6C, 0x8D26, 0x6216, 0x6CC4, 0x9732, 0x4E2A, 0x4EBA, 0x4FE1, 0x606F]]
      else [])"

text \<open>The reason \<open>f"...{matches}...{category}..."\<close> of a category that fired.\<close>

definition category_reason :: "nat \<Rightarrow> ustr \<Rightarrow> ustr" where
  "category_reason matches category =
     [0x53D1, 0x73B0] @ py_str_nat matches @ [0x4E2A] @ category @ [0x76F8, 0x5173, 0x5173, 0x952E, 0x8BCD]"

text \<open>One iteration of the loop over \<open>self.keywords_db.items()\<close>.\<close>

definition scan_category :: "ustr \<Rightarrow> detection_acc \<Rightarrow> ustr \<times> ustr list \<Rightarrow> detection_acc" where
  "scan_category text a item =
     (let category = fst item;
          kws = snd item;
          matches = count_keyword_matches text kws
      in if matches > 0 then
           a\<lparr>risk_score := risk_score a + min (real matches * 0.15) 0.6,
             keywords_found := keywords_found a @ take 5 (filter (\<lambda>kw. py_in kw text) kws),
             acc_categories := acc_categories a @ [category],
             acc_reasons := acc_reasons a @ [category_reason matches category],
             acc_suggestions := acc_suggestions a @ category_suggestions category\<rparr>
         else a)"

definition scan_language_patterns :: "ustr \<Rightarrow> detection_acc \<Rightarrow> detection_acc" where
  "scan_language_patterns text a =
     (let pattern_score = detect_language_patterns text
      in if pattern_score > 0.1 then
           a\<lparr>risk_score := risk_score a + pattern_score,
             acc_reasons := acc_reasons a @ [[0x68C0, 0x6D4B, 0x5230, 0x53EF, 0x7591, 0x7684, 0x8BED, 0x8A00, 0x6A21, 0x5F0F]]\<rparr>
         else a)"

definition scan_contact_info :: "ustr \<Rightarrow> detection_acc \<Rightarrow> detection_acc" where
  "scan_contact_info text a =
     (let contact_score = detect_contact_info text
      in if contact_score > 0 \<and> risk_score a > 0 then
           a\<lparr>risk_score := risk_score a + contact_score,
             acc_reasons := acc_reasons a @ [[0x542B, 0x6709, 0x8054, 0x7CFB, 0x65B9, 0x5F0F, 0x4E14, 0x5B58, 0x5728, 0x5176, 0x4ED6, 0x98CE, 0x9669, 0x56E0, 0x7D20]],
             acc_suggestions := acc_suggestions a @ [[0x4E0D, 0x8981, 0x8F7B, 0x6613, 0x6DFB, 0x52A0, 0x964C, 0x751F, 0x4EBA, 0x8054, 0x7CFB, 0x65B9, 0x5F0F]]\<rparr>
         else a)"

definition scan_urgency :: "ustr \<Rightarrow> detection_acc \<Rightarrow> detection_acc" where
  "scan_urgency text a =
     (let urgency_score = detect_urgency text
      in if urgency_score > 0.1 then
           a\<lparr>risk_score := risk_score a + urgency_score,
             acc_reasons := acc_reasons a @ [[0x5185, 0x5BB9, 0x4F7F, 0x7528, 0x5927, 0x91CF, 0x7D27, 0x6025, 0x6027, 0x8BED, 0x8A00, 0xFF0C, 0x53EF, 0x80FD, 0x662F, 0x8BF1, 0x5BFC, 0x624B, 0x6BB5]],
             acc_suggestions := acc_suggestions a @ [[0x51B7, 0x9759, 0x601D, 0x8003, 0xFF0C, 0x4E0D, 0x8981, 0x88AB, 0x7D27, 0x6025, 0x6027, 0x8BED, 0x8A00, 0x8BEF, 0x5BFC]]\<rparr>
         else a)"

definition scan_numbers :: "real \<Rightarrow> detection_acc \<Rightarrow> detection_acc" where
  "scan_numbers number_score a =
     (if number_score > 0 then
        a\<lparr>risk_score := risk_score a + number_score,
          acc_reasons := acc_reasons a @ [[0x68C0, 0x6D4B, 0x5230, 0x53EF, 0x7591, 0x7684, 0x6570, 0x5B57, 0x627F, 0x8BFA]]\<rparr>
      else a)"

text \<open>The clamp, the thresholds and the construction of the result.\<close>

definition general_suggestions :: "ustr list" where
  "general_suggestions =
     [[0x5982, 0x6709, 0x7591, 0x95EE, 0xFF0C, 0x8BF7, 0x54A8, 0x8BE2, 0x5BB6, 0x4EBA, 0x6216, 0x4E13, 0x4E1A, 0x4EBA, 0x58EB],
      [0x9047, 0x5230, 0x8981, 0x6C42, 0x8F6C, 0x8D26, 0x7684, 0x60C5, 0x51B5, 0x8BF7, 0x7ACB, 0x5373, 0x8B66, 0x60D5]]"

definition finish_detection :: "detection_acc \<Rightarrow> ustr \<Rightarrow> DetectionResult" where
  "finish_detection a did =
     (let capped = min (risk_score a) 1.0;
          lvl = (if capped \<ge> 0.7 then DANGER else if capped \<ge> 0.4 then WARNING else SAFE);
          msg = (if capped \<ge> 0.7 then [0x68C0, 0x6D4B, 0x5230, 0x9AD8, 0x98CE, 0x9669, 0x5185, 0x5BB9, 0xFF0C, 0x5EFA, 0x8BAE, 0x7ACB, 0x5373, 0x505C, 0x6B62, 0x89C2, 0x770B]
                 else if capped \<ge> 0.4 then [0x5185, 0x5BB9, 0x5B58, 0x5728, 0x53EF, 0x7591, 0x4FE1, 0x606F, 0xFF0C, 0x8BF7, 0x8C28, 0x614E, 0x5BF9, 0x5F85]
                 else [0x6682, 0x672A, 0x53D1, 0x73B0, 0x660E, 0x663E, 0x98CE, 0x9669]);
          sugg = (if lvl \<noteq> SAFE then acc_suggestions a @ general_suggestions
                  else acc_suggestions a)
      in \<lparr>level = lvl, score = capped, confidence = 0.8, message = msg,
          reasons = acc_reasons a, suggestions = sugg, categories = acc_categories a,
          matched_keywords = keywords_found a, detection_id = did\<rparr>)"

text \<open>
  \<open>_perform_detection\<close>: the five detectors in source order. Only the numeric detector
  can raise, and nothing catches it here.
\<close>

definition perform_detection ::
    "(ustr \<times> ustr list) list \<Rightarrow> ustr \<Rightarrow> ustr \<Rightarrow> py_error + DetectionResult" where
  "perform_detection kdb text did =
     (let a = foldl (scan_category text) init_acc kdb;
          a = scan_language_patterns text a;
          a = scan_contact_info text a;
          a = scan_urgency text a
      in case detect_suspicious_numbers text of
           Inl e \<Rightarrow> Inl e
         | Inr number_score \<Rightarrow> Inr (finish_detection (scan_numbers number_score a) did))"

section \<open>Cache key: MD5 of the UTF-8 encoding\<close>

text \<open>
  \<open>text.encode('utf-8')\<close> raises \<open>UnicodeEncodeError\<close> on a surrogate code point, which
  a \<open>str\<close> may hold.
\<close>

definition utf8_char :: "nat \<Rightarrow> py_error + 8 word list" where
  "utf8_char c =
     (if c < 0x80 then Inr [of_nat c]
      else if c < 0x800 then Inr [of_nat (0xC0 + c div 0x40), of_nat (0x80 + c mod 0x40)]
      else if 0xD800 \<le> c \<and> c \<le> 0xDFFF then Inl UnicodeEncodeError
      else if c < 0x10000 then
        Inr [of_nat (0xE0 + c div 0x1000), of_nat (0x80 + c div 0x40 mod 0x40),
             of_nat (0x80 + c mod 0x40)]
      else if c < 0x110000 then
        Inr [of_nat (0xF0 + c div 0x40000), of_nat (0x80 + c div 0x1000 mod 0x40),
             of_nat (0x80 + c div 0x40 mod 0x40), of_nat (0x80 + c mod 0x40)]
      else Inl UnicodeEncodeError)"

fun utf8_encode :: "ustr \<Rightarrow> py_error + 8 word list" where
  "utf8_encode [] = Inr []"
| "utf8_encode (c # cs) =
     (case utf8_char c of
        Inl e \<Rightarrow> Inl e
      | Inr bs \<Rightarrow> (case utf8_encode cs of Inl e \<Rightarrow> Inl e | Inr rest \<Rightarrow> Inr (bs @ rest)))"

text \<open>\<open>hashlib.md5\<close>, as RFC 1321 defines it.\<close>

type_synonym md5_state = "32 word \<times> 32 word \<times> 32 word \<times> 32 word"

definition md5_shifts :: "nat list" where
  "md5_shifts =
     [7, 12, 17, 22, 7, 12, 17, 22, 7, 12, 17, 22, 7, 12, 17, 22,
      5, 9, 14, 20, 5, 9, 14, 20, 5, 9, 14, 20, 5, 9, 14, 20,
      4, 11, 16, 23, 4, 11, 16, 23, 4, 11, 16, 23, 4, 11, 16, 23,
      6, 10, 15, 21, 6, 10, 15, 21, 6, 10, 15, 21, 6, 10, 15, 21]"

definition md5_K :: "32 word list" where
  "md5_K =
     [0xd76aa478, 0xe8c7b756, 0x242070db, 0xc1bdceee, 0xf57c0faf, 0x4787c62a, 0xa8304613,
      0xfd469501, 0x698098d8, 0x8b44f7af, 0xffff5bb1, 0x895cd7be, 0x6b901122, 0xfd987193,
      0xa679438e, 0x49b40821, 0xf61e2562, 0xc040b340, 0x265e5a51, 0xe9b6c7aa, 0xd62f105d,
      0x02441453, 0xd8a1e681, 0xe7d3fbc8, 0x21e1cde6, 0xc33707d6, 0xf4d50d87, 0x455a14ed,
      0xa9e3e905, 0xfcefa3f8, 0x676f02d9, 0x8d2a4c8a, 0xfffa3942, 0x8771f681, 0x6d9d6122,
      0xfde5380c, 0xa4beea44, 0x4bdecfa9, 0xf6bb4b60, 0xbebfbc70, 0x289b7ec6, 0xeaa127fa,
      0xd4ef3085, 0x04881d05, 0xd9d4d039, 0xe6db99e5, 0x1fa27cf8, 0xc4ac5665, 0xf4292244,
      0x432aff97, 0xab9423a7, 0xfc93a039, 0x655b59c3, 0x8f0ccc92, 0xffeff47d, 0x85845dd1,
      0x6fa87e4f, 0xfe2ce6e0, 0xa3014314, 0x4e0811a1, 0xf7537e82, 0xbd3af235, 0x2ad7d2bb,
      0xeb86d391]"

definition md5_mix :: "nat \<Rightarrow> 32 word \<Rightarrow> 32 word \<Rightarrow> 32 word \<Rightarrow> 32 word" where
  "md5_mix i b c d =
     (if i < 16 then (b AND c) OR (NOT b AND d)
      else if i < 32 then (d AND b) OR (NOT d AND c)
      else if i < 48 then b XOR c XOR d
      else c XOR (b OR NOT d))"

definition md5_index :: "nat \<Rightarrow> nat" where
  "md5_index i =
     (if i < 16 then i
      else if i < 32 then (5 * i + 1) mod 16
      else if i < 48 then (3 * i + 5) mod 16
      else (7 * i) mod 16)"

definition md5_step :: "32 word list \<Rightarrow> md5_state \<Rightarrow> nat \<Rightarrow> md5_state" where
  "md5_step m s i =
     (case s of (a, b, c, d) \<Rightarrow>
        (d, b + word_rotl (md5_shifts ! i) (a + md5_mix i b c d + md5_K ! i + m ! md5_index i),
         b, c))"

definition md5_block :: "md5_state \<Rightarrow> 32 word list \<Rightarrow> md5_state" where
  "md5_block s m =
     (case s of (a0, b0, c0, d0) \<Rightarrow>
        (case foldl (md5_step m) s [0..<64] of (a, b, c, d) \<Rightarrow>
           (a0 + a, b0 + b, c0 + c, d0 + d)))"

text \<open>Padding: the byte 0x80, zeros up to 56 modulo 64, the bit length in 8 bytes.\<close>

definition le_bytes :: "nat \<Rightarrow> 'a::len word \<Rightarrow> 8 word list" where
  "le_bytes k w = map (\<lambda>i. ucast (drop_bit (8 * i) w)) [0..<k]"

definition md5_pad :: "8 word list \<Rightarrow> 8 word list" where
  "md5_pad bs =
     bs @ [0x80] @ replicate ((119 - length bs mod 64) mod 64) 0
        @ le_bytes 8 (of_nat (8 * length bs) :: 64 word)"

fun le_words :: "8 word list \<Rightarrow> 32 word list" where
  "le_words (b0 # b1 # b2 # b3 # rest) =
     (ucast b0 + push_bit 8 (ucast b1) + push_bit 16 (ucast b2) + push_bit 24 (ucast b3))
       # le_words rest"
| "le_words _ = []"

function md5_blocks :: "md5_state \<Rightarrow> 32 word list \<Rightarrow> md5_state" where
  "md5_blocks s ws = (if length ws < 16 then s else md5_blocks (md5_block s (take 16 ws)) (drop 16 ws))"
  by pat_completeness auto
termination
  by (relation "measure (\<lambda>(s, ws). length ws)") auto

declare md5_blocks.simps [simp del]

definition md5 :: "8 word list \<Rightarrow> md5_state" where
  "md5 bs = md5_blocks (0x67452301, 0xefcdab89, 0x98badcfe, 0x10325476) (le_words (md5_pad bs))"

definition hex_digit :: "nat \<Rightarrow> nat" where
  "hex_digit n = (if n < 10 then 0x30 + n else 0x57 + n)"

definition hex_byte :: "8 word \<Rightarrow> ustr" where
  "hex_byte b = [hex_digit (unat b div 16), hex_digit (unat b mod 16)]"

definition md5_hexdigest :: "8 word list \<Rightarrow> ustr" where
  "md5_hexdigest bs =
     (case md5 bs of (a, b, c, d) \<Rightarrow>
        concat (map hex_byte (concat (map (le_bytes 4) [a, b, c, d]))))"

definition generate_cache_key :: "ustr \<Rightarrow> py_error + ustr" where
  "generate_cache_key text =
     (case utf8_encode text of Inl e \<Rightarrow> Inl e | Inr bs \<Rightarrow> Inr (md5_hexdigest bs))"

section \<open>Cache and statistics\<close>

text \<open>
  A \<open>dict\<close> keeps its keys in insertion order: an association list with distinct keys.
  Assigning to a key that is present keeps its position.
\<close>

definition dict_set :: "('k \<times> 'v) list \<Rightarrow> 'k \<Rightarrow> 'v \<Rightarrow> ('k \<times> 'v) list" where
  "dict_set d k v =
     (if k \<in> fst ` set d then map (\<lambda>(k', v'). if k' = k then (k', v) else (k', v')) d
      else d @ [(k, v)])"

definition dict_del :: "('k \<times> 'v) list \<Rightarrow> 'k \<Rightarrow> ('k \<times> 'v) list" where
  "dict_del d k = filter (\<lambda>(k', v'). k' \<noteq> k) d"

definition cleanup_cache :: "('k \<times> 'v) list \<Rightarrow> ('k \<times> 'v) list" where
  "cleanup_cache c =
     (if length c > 1000 then
        (let items_to_remove = length c div 2;
             keys_to_remove = take items_to_remove (map fst c)
         in foldl dict_del c keys_to_remove)
      else c)"

text \<open>
  The two statements of \<open>detect_text\<close> that store a result: the assignment and the
  clean-up that follows it.
\<close>

definition cache_put :: "('k \<times> 'v) list \<Rightarrow> 'k \<Rightarrow> 'v \<Rightarrow> ('k \<times> 'v) list" where
  "cache_put c k v = cleanup_cache (dict_set c k v)"

text \<open>
  \<open>_update_statistics\<close>. The division raises when the incremented total is zero; the
  counters have been updated by then, and the error carries them.
\<close>

definition update_statistics ::
    "DetectionStats \<Rightarrow> DetectionResult \<Rightarrow> real \<Rightarrow> (py_error \<times> DetectionStats) + DetectionStats" where
  "update_statistics st result processing_time =
     (let st = st\<lparr>total_detections := total_detections st + 1\<rparr>;
          st = (if level result = SAFE then st\<lparr>safe_count := safe_count st + 1\<rparr>
                else if level result = WARNING then st\<lparr>warning_count := warning_count st + 1\<rparr>
                else st\<lparr>danger_count := danger_count st + 1\<rparr>);
          total_time = avg_processing_time st * of_int (total_detections st - 1)
      in if total_detections st = 0 then Inl (ZeroDivisionError, st)
         else Inr (st\<lparr>avg_processing_time :=
                      (total_time + processing_time) / of_int (total_detections st)\<rparr>))"

section \<open>The engine\<close>

record engine =
  cache :: "(ustr \<times> DetectionResult) list"
  statistics :: DetectionStats
  keywords_db :: "(ustr \<times> ustr list) list"
  is_initialized :: bool

definition new_statistics :: DetectionStats where
  "new_statistics =
     \<lparr>total_detections = 0, safe_count = 0, warning_count = 0, danger_count = 0,
      avg_processing_time = 0\<rparr>"

text \<open>
  An assignment \<open>self.name = value\<close>. The class inherits the property \<open>logger\<close> from
  \<open>LoggerMixin\<close>, which declares a getter and no setter: assigning to it raises
  \<open>AttributeError\<close>. Every other name is stored on the instance.
\<close>

definition readonly_properties :: "string list" where
  "readonly_properties = [''logger'']"

definition set_attribute :: "string \<Rightarrow> py_error + unit" where
  "set_attribute name = (if name \<in> set readonly_properties then Inl AttributeError else Inr ())"

text \<open>
  The values that the statements of \<open>DetectionEngine.__init__\<close> after the first give to
  the attributes \<open>cache\<close>, \<open>statistics\<close>, \<open>keywords_db\<close> and \<open>is_initialized\<close>. The
  constructor below raises before it reaches them; the properties of the method bodies
  are stated for arbitrary engines and illustrated on these values.
\<close>

definition initial_attributes :: engine where
  "initial_attributes =
     \<lparr>cache = [], statistics = new_statistics, keywords_db = load_keywords,
      is_initialized = False\<rparr>"

text \<open>
  \<open>DetectionEngine.__init__\<close>: its first statement assigns \<open>self.logger\<close>, the other
  four assign the attributes above.
\<close>

definition new_engine :: "py_error + engine" where
  "new_engine =
     (case set_attribute ''logger'' of
        Inl e \<Rightarrow> Inl e
      | Inr u \<Rightarrow> Inr initial_attributes)"

text \<open>The result of the \<open>except\<close> branch of \<open>detect_text\<close>.\<close>

definition fallback_result :: "ustr \<Rightarrow> DetectionResult" where
  "fallback_result did =
     \<lparr>level = SAFE, score = 0.0, confidence = 0.1,
      message = [0x68C0, 0x6D4B, 0x670D, 0x52A1, 0x5F02, 0x5E38, 0xFF0C, 0x8BF7, 0x624B, 0x52A8, 0x9A8C, 0x8BC1, 0x5185, 0x5BB9, 0x5B89, 0x5168, 0x6027],
      reasons = [[0x7CFB, 0x7EDF, 0x68C0, 0x6D4B, 0x5F02, 0x5E38]],
      suggestions = [[0x5EFA, 0x8BAE, 0x4EBA, 0x5DE5, 0x786E, 0x8BA4, 0x5185, 0x5BB9, 0x771F, 0x5B9E, 0x6027]],
      categories = [], matched_keywords = [], detection_id = did\<rparr>"

text \<open>
  The body of the \<open>try\<close> block of \<open>detect_text\<close>. The identifier from \<open>uuid.uuid4()\<close>
  and the elapsed time between the two readings of the clock are inputs. The engine is
  mutated in place, so an exception carries the engine as it is when raised.
\<close>

definition detect_text_try ::
    "engine \<Rightarrow> ustr \<Rightarrow> ustr \<Rightarrow> real \<Rightarrow> (py_error \<times> engine) + (DetectionResult \<times> engine)" where
  "detect_text_try s text did processing_time =
     (case generate_cache_key text of
        Inl e \<Rightarrow> Inl (e, s)
      | Inr cache_key \<Rightarrow>
          (case map_of (cache s) cache_key of
             Some cached_result \<Rightarrow>
               (let cached_result = cached_result\<lparr>detection_id := did\<rparr>
                in Inr (cached_result, s\<lparr>cache := dict_set (cache s) cache_key cached_result\<rparr>))
           | None \<Rightarrow>
               (let cleaned_text = preprocess_text text
                in case perform_detection (keywords_db s) cleaned_text did of
                     Inl e \<Rightarrow> Inl (e, s)
                   | Inr result \<Rightarrow>
                       (let s = s\<lparr>cache := dict_set (cache s) cache_key result\<rparr>;
                            s = s\<lparr>cache := cleanup_cache (cache s)\<rparr>
                        in case update_statistics (statistics s) result processing_time of
                             Inl (e, st) \<Rightarrow> Inl (e, s\<lparr>statistics := st\<rparr>)
                           | Inr st \<Rightarrow> Inr (result, s\<lparr>statistics := st\<rparr>)))))"

text \<open>
  The body of the method \<open>detect_text\<close>: the \<open>try\<close> block, and the \<open>except\<close> branch
  that turns every exception of the block into the fallback result.
\<close>

definition detect_text_body :: "engine \<Rightarrow> ustr \<Rightarrow> ustr \<Rightarrow> real \<Rightarrow> DetectionResult \<times> engine" where
  "detect_text_body s text did processing_time =
     (case detect_text_try s text did processing_time of
        Inr out \<Rightarrow> out
      | Inl (e, s') \<Rightarrow> (fallback_result did, s'))"

text \<open>
  The decorator \<open>log_detection_result\<close> of \<open>core/logging_config.py\<close>. Its wrapper awaits
  the decorated function and then builds the log entry, whose last item is
  \<open>time.time()\<close>. A name is looked up in the wrapper's own and enclosing function scopes
  (the parameters and the local imports \<open>wraps\<close> and \<open>json\<close> of \<open>log_detection_result\<close>),
  then among the names bound at module level, then among the builtins. The module
  imports \<open>os\<close>, \<open>sys\<close>, \<open>Path\<close>, \<open>logger\<close> and \<open>settings\<close>; \<open>time\<close> is imported inside
  the other decorator, \<open>log_execution_time\<close>, only, and is no builtin. An exception of the
  wrapped function or of the logging statements is caught by \<open>except Exception\<close>, logged
  and raised again. The engine is mutated in place, so the exception leaves it as the
  wrapped function left it. Where the look-up succeeds the entry is logged and the result
  returned.
\<close>

definition wrapper_scopes :: "string list" where
  "wrapper_scopes =
     [''args'', ''kwargs'', ''result'', ''log_data'', ''e'', ''func'', ''async_wrapper'',
      ''sync_wrapper'', ''user_id'', ''content_type'', ''wraps'', ''json'', ''decorator'']"

definition logging_config_globals :: "string list" where
  "logging_config_globals =
     [''os'', ''sys'', ''Path'', ''logger'', ''settings'', ''setup_logging'', ''get_logger'',
      ''LoggerMixin'', ''log_execution_time'', ''log_detection_result'', ''log_api_access'']"

definition builtins_used :: "string list" where
  "builtins_used = [''getattr'', ''hasattr'', ''Exception'']"

definition lookup_name :: "string \<Rightarrow> py_error + unit" where
  "lookup_name name =
     (if name \<in> set wrapper_scopes \<or> name \<in> set logging_config_globals \<or>
         name \<in> set builtins_used
      then Inr () else Inl NameError)"

definition log_detection_result ::
    "(py_error \<times> 'st) + ('r \<times> 'st) \<Rightarrow> (py_error \<times> 'st) + ('r \<times> 'st)" where
  "log_detection_result outcome =
     (case outcome of
        Inl (e, s) \<Rightarrow> Inl (e, s)
      | Inr (result, s) \<Rightarrow>
          (case lookup_name ''time'' of
             Inl e \<Rightarrow> Inl (e, s)
           | Inr u \<Rightarrow> Inr (result, s)))"

text \<open>The method \<open>detect_text\<close> as callers see it: the body inside the decorator.\<close>

definition detect_text ::
    "engine \<Rightarrow> ustr \<Rightarrow> ustr \<Rightarrow> real \<Rightarrow> (py_error \<times> engine) + (DetectionResult \<times> engine)" where
  "detect_text s text did processing_time =
     log_detection_result (Inr (detect_text_body s text did processing_time))"

text \<open>The engine after a call, whether the call returned or raised.\<close>

definition engine_after :: "(py_error \<times> engine) + (DetectionResult \<times> engine) \<Rightarrow> engine" where
  "engine_after outcome = (case outcome of Inl (e, s) \<Rightarrow> s | Inr (r, s) \<Rightarrow> s)"

section \<open>Ensemble voting\<close>

text \<open>
  A prediction dictionary of \<open>ai_models.py\<close>: the key \<open>model\<close> may be absent, the
  prediction is one of the three keys of \<open>vote_scores\<close>.
\<close>

datatype vote_key = safe | warning | danger

record prediction =
  pred_model :: "ustr option"
  pred_prediction :: vote_key
  pred_confidence :: real
  pred_explanation :: ustr

record vote_acc =
  vote_scores :: "(vote_key \<times> real) list"
  total_confidence :: real
  explanations :: "ustr list"

record verdict =
  final_prediction :: vote_key
  final_confidence :: real
  final_explanation :: ustr
  final_vote_scores :: "(vote_key \<times> real) list"
  model_predictions :: "prediction list"

text \<open>\<open>weights.get(name, 0.1)\<close> and \<open>vote_scores[key] += x\<close>.\<close>

definition weight_of :: "(ustr \<times> real) list \<Rightarrow> ustr \<Rightarrow> real" where
  "weight_of weights name = (case map_of weights name of Some w \<Rightarrow> w | None \<Rightarrow> 0.1)"

definition add_vote :: "(vote_key \<times> real) list \<Rightarrow> vote_key \<Rightarrow> real \<Rightarrow> (vote_key \<times> real) list" where
  "add_vote vs k x = map (\<lambda>(k', v). if k' = k then (k', v + x) else (k', v)) vs"

definition vote_step :: "(ustr \<times> real) list \<Rightarrow> vote_acc \<Rightarrow> prediction \<Rightarrow> vote_acc" where
  "vote_step weights a pred =
     (let model_name = (case pred_model pred of Some n \<Rightarrow> n | None \<Rightarrow> [0x75, 0x6E, 0x6B, 0x6E, 0x6F, 0x77, 0x6E]);
          weight = weight_of weights (py_lower model_name)
      in \<lparr>vote_scores = add_vote (vote_scores a) (pred_prediction pred) (weight * pred_confidence pred),
          total_confidence = total_confidence a + pred_confidence pred * weight,
          explanations = explanations a @ [model_name @ [0x3A, 0x20] @ pred_explanation pred]\<rparr>)"

text \<open>\<open>max(d, key=d.get)\<close>: the first key, in insertion order, whose value is maximal.\<close>

fun max_from :: "'k \<times> real \<Rightarrow> ('k \<times> real) list \<Rightarrow> 'k" where
  "max_from best [] = fst best"
| "max_from best (kv # rest) = max_from (if snd kv > snd best then kv else best) rest"

definition max_key :: "(vote_key \<times> real) list \<Rightarrow> vote_key" where
  "max_key d = (case d of [] \<Rightarrow> safe | kv # rest \<Rightarrow> max_from kv rest)"

fun py_join :: "ustr \<Rightarrow> ustr list \<Rightarrow> ustr" where
  "py_join sep [] = []"
| "py_join sep [x] = x"
| "py_join sep (x # y # rest) = x @ sep @ py_join sep (y # rest)"

definition weighted_voting :: "prediction list \<Rightarrow> (ustr \<times> real) list \<Rightarrow> py_error + verdict" where
  "weighted_voting predictions weights =
     (let a = foldl (vote_step weights)
                \<lparr>vote_scores = [(safe, 0), (warning, 0), (danger, 0)], total_confidence = 0,
                 explanations = []\<rparr> predictions
      in if predictions = [] then Inl ZeroDivisionError
         else Inr \<lparr>final_prediction = max_key (vote_scores a),
                   final_confidence = total_confidence a / real (length predictions),
                   final_explanation = py_join [0x20, 0x7C, 0x20] (explanations a),
                   final_vote_scores = vote_scores a,
                   model_predictions = predictions\<rparr>)"

section \<open>Notions used by the properties\<close>

text \<open>A result whose score is in the unit interval and whose level follows the thresholds.\<close>

definition result_ok :: "DetectionResult \<Rightarrow> bool" where
  "result_ok r =
     (0 \<le> score r \<and> score r \<le> 1 \<and>
      level r = (if score r \<ge> 0.7 then DANGER else if score r \<ge> 0.4 then WARNING else SAFE))"

text \<open>
  An engine whose cache is a dictionary (its keys are distinct) and whose number of
  detections is not negative.
\<close>

definition engine_inv :: "engine \<Rightarrow> bool" where
  "engine_inv s = (distinct (map fst (cache s)) \<and> 0 \<le> total_detections (statistics s))"

text \<open>The test \<open>cache_key in self.cache\<close> at the head of \<open>detect_text\<close>.\<close>

definition served_from_cache :: "engine \<Rightarrow> ustr \<Rightarrow> bool" where
  "served_from_cache s text =
     (case generate_cache_key text of
        Inl e \<Rightarrow> False
      | Inr cache_key \<Rightarrow> map_of (cache s) cache_key \<noteq> None)"

text \<open>The keyword contribution in closed form: every category adds its capped share.\<close>

definition keyword_score :: "(ustr \<times> ustr list) list \<Rightarrow> ustr \<Rightarrow> real" where
  "keyword_score kdb text =
     sum_list (map (\<lambda>item. min (real (count_keyword_matches text (snd item)) * 0.15) 0.6) kdb)"

text \<open>
  The aggregate as the specification words it: all five contributions are summed, the
  contact contribution only when the running total is positive, and the sum is clamped.
\<close>

definition spec_total_score :: "(ustr \<times> ustr list) list \<Rightarrow> ustr \<Rightarrow> real \<Rightarrow> real" where
  "spec_total_score kdb text number_score =
     (let running = keyword_score kdb text + detect_language_patterns text;
          contact = (if running > 0 then detect_contact_info text else 0)
      in min (running + contact + detect_urgency text + number_score) 1)"

text \<open>
  The aggregate with the gates of the source: the pattern and the urgency contributions
  count only above 0.1.
\<close>

definition gated_total_score :: "(ustr \<times> ustr list) list \<Rightarrow> ustr \<Rightarrow> real \<Rightarrow> real" where
  "gated_total_score kdb text number_score =
     (let pattern = (if detect_language_patterns text > 0.1 then detect_language_patterns text else 0);
          running = keyword_score kdb text + pattern;
          contact = (if running > 0 then detect_contact_info text else 0);
          urgency = (if detect_urgency text > 0.1 then detect_urgency text else 0)
      in min (running + contact + urgency + number_score) 1)"

text \<open>A sequence of stores into a cache, oldest first.\<close>

definition put_all :: "('k \<times> 'v) list \<Rightarrow> ('k \<times> 'v) list \<Rightarrow> ('k \<times> 'v) list" where
  "put_all c kvs = foldl (\<lambda>c kv. cache_put c (fst kv) (snd kv)) c kvs"

text \<open>The vote mass of a key and the weighted confidence of one prediction.\<close>

definition vote_of :: "(vote_key \<times> real) list \<Rightarrow> vote_key \<Rightarrow> real" where
  "vote_of vs k = (case map_of vs k of Some x \<Rightarrow> x | None \<Rightarrow> 0)"

definition weighted_confidence :: "(ustr \<times> real) list \<Rightarrow> prediction \<Rightarrow> real" where
  "weighted_confidence weights p =
     weight_of weights (py_lower (case pred_model p of Some n \<Rightarrow> n | None \<Rightarrow> [0x75, 0x6E, 0x6B, 0x6E, 0x6F, 0x77, 0x6E]))
       * pred_confidence p"

text \<open>
  The texts of the scenarios: the investment advertisement, the cooking lesson, a lone
  urgency word (deadline), a lone surrogate, the letter a in both cases, an
  advertisement with three financial promises, and one with four financial and four
  medical promises.
\<close>

definition text_investment :: ustr where
  "text_investment =
     [0x6708, 0x5165, 0x4E09, 0x4E07, 0x7684, 0x7406, 0x8D22, 0x79D8, 0x8BC0, 0xFF0C, 0x4FDD, 0x8BC1, 0x6536, 0x76CA, 0x65E0, 0x98CE, 0x9669, 0xFF01]"

definition text_cooking :: ustr where
  "text_cooking = [0x4ECA, 0x5929, 0x6559, 0x5927, 0x5BB6, 0x505A, 0x7EA2, 0x70E7, 0x8089, 0x7684, 0x5BB6, 0x5E38, 0x505A, 0x6CD5]"

definition text_deadline :: ustr where
  "text_deadline = [0x622A, 0x6B62]"

definition text_surrogate :: ustr where
  "text_surrogate = [0xD800]"

definition text_upper_a :: ustr where
  "text_upper_a = [0x41]"

definition text_lower_a :: ustr where
  "text_lower_a = [0x61]"

definition text_three_promises :: ustr where
  "text_three_promises = [0x4FDD, 0x8BC1, 0x6536, 0x76CA, 0x7A33, 0x8D5A, 0x4E0D, 0x8D54, 0x9AD8, 0x6536, 0x76CA]"

definition text_eight_promises :: ustr where
  "text_eight_promises =
     [0x4FDD, 0x8BC1, 0x6536, 0x76CA, 0x7A33, 0x8D5A, 0x4E0D, 0x8D54, 0x9AD8, 0x6536, 0x76CA, 0x5185, 0x5E55, 0x6D88, 0x606F, 0xFF0C, 0x5305, 0x6CBB, 0x767E, 0x75C5, 0x7956, 0x4F20, 0x79D8, 0x65B9, 0x4E00, 0x6B21, 0x6839, 0x6CBB, 0x6C38, 0x4E0D, 0x590D, 0x53D1, 0xFF01]"

text \<open>
  Two texts of 72 letters and digits that differ in their 22nd character and have the
  same MD5 digest, \<open>faad49866e9498fc1719f5289e7a0269\<close>.
\<close>

definition text_collision_1 :: ustr where
  "text_collision_1 =
     [0x54, 0x45, 0x58, 0x54, 0x43, 0x4F, 0x4C, 0x4C, 0x42, 0x59, 0x66, 0x47, 0x69, 0x4A, 0x55, 0x45, 0x54, 0x48, 0x51, 0x34, 0x68, 0x41, 0x63, 0x4B, 0x53, 0x4D, 0x64, 0x35, 0x7A, 0x59, 0x70, 0x67, 0x71, 0x66, 0x31, 0x59, 0x52, 0x44, 0x68, 0x6B, 0x6D, 0x78, 0x48, 0x6B, 0x68, 0x50, 0x57, 0x70, 0x74, 0x72, 0x6B, 0x6F, 0x79, 0x7A, 0x32, 0x38, 0x77, 0x6E, 0x49, 0x39, 0x56, 0x30, 0x61, 0x48, 0x65, 0x41, 0x75, 0x61, 0x4B, 0x6E, 0x61, 0x6B]"

definition text_collision_2 :: ustr where
  "text_collision_2 =
     [0x54, 0x45, 0x58, 0x54, 0x43, 0x4F, 0x4C, 0x4C, 0x42, 0x59, 0x66, 0x47, 0x69, 0x4A, 0x55, 0x45, 0x54, 0x48, 0x51, 0x34, 0x68, 0x45, 0x63, 0x4B, 0x53, 0x4D, 0x64, 0x35, 0x7A, 0x59, 0x70, 0x67, 0x71, 0x66, 0x31, 0x59, 0x52, 0x44, 0x68, 0x6B, 0x6D, 0x78, 0x48, 0x6B, 0x68, 0x50, 0x57, 0x70, 0x74, 0x72, 0x6B, 0x6F, 0x79, 0x7A, 0x32, 0x38, 0x77, 0x6E, 0x49, 0x39, 0x56, 0x30, 0x61, 0x48, 0x65, 0x41, 0x75, 0x61, 0x4B, 0x6E, 0x61, 0x6B]"

definition digest_collision :: ustr where
  "digest_collision = [0x66, 0x61, 0x61, 0x64, 0x34, 0x39, 0x38, 0x36, 0x36, 0x65, 0x39, 0x34, 0x39, 0x38, 0x66, 0x63, 0x31, 0x37, 0x31, 0x39, 0x66, 0x35, 0x32, 0x38, 0x39, 0x65, 0x37, 0x61, 0x30, 0x32, 0x36, 0x39]"

text \<open>Two identifiers as \<open>str(uuid.uuid4())\<close> returns them.\<close>

definition id_first :: ustr where
  "id_first = [0x33, 0x66, 0x32, 0x62, 0x38, 0x63, 0x31, 0x65, 0x2D, 0x37, 0x61, 0x34, 0x64, 0x2D, 0x34, 0x65, 0x39, 0x62, 0x2D, 0x39, 0x63, 0x35, 0x35, 0x2D, 0x30, 0x64, 0x36, 0x61, 0x31, 0x65, 0x32, 0x66, 0x34, 0x62, 0x37, 0x63]"

definition id_second :: ustr where
  "id_second = [0x61, 0x31, 0x63, 0x34, 0x65, 0x36, 0x66, 0x38, 0x2D, 0x32, 0x62, 0x33, 0x64, 0x2D, 0x34, 0x63, 0x35, 0x65, 0x2D, 0x38, 0x66, 0x39, 0x30, 0x2D, 0x31, 0x61, 0x32, 0x62, 0x33, 0x63, 0x34, 0x64, 0x35, 0x65, 0x36, 0x66]"

text \<open>The time a call takes, in seconds.\<close>

definition elapsed :: real where
  "elapsed = 0.012"

text \<open>
  A pattern that matches nothing, recognised syntactically, and the characters of the
  scenario texts: CJK ideographs and the full-width comma and exclamation mark.
\<close>

fun dead :: "rx \<Rightarrow> bool" where
  "dead Nul = True"
| "dead (Cat r s) = (dead r \<or> dead s)"
| "dead (Alt r s) = (dead r \<and> dead s)"
| "dead r = False"

definition plain_char :: "nat \<Rightarrow> bool" where
  "plain_char c = ((0x4E00 \<le> c \<and> c \<le> 0x9FFF) \<or> c = 0xFF0C \<or> c = 0xFF01)"

text \<open>
  The hexadecimal MD5 digests of the one-byte texts: \<open>0cc175b9c0f1b6a831c399e269772661\<close>
  for the lower-case letter and \<open>7fc56270e7a70fa81a5935b72eacbe29\<close> for the capital.
\<close>

definition digest_lower_a :: ustr where
  "digest_lower_a = [0x30, 0x63, 0x63, 0x31, 0x37, 0x35, 0x62, 0x39, 0x63, 0x30, 0x66, 0x31, 0x62, 0x36, 0x61, 0x38, 0x33, 0x31, 0x63, 0x33, 0x39, 0x39, 0x65, 0x32, 0x36, 0x39, 0x37, 0x37, 0x32, 0x36, 0x36, 0x31]"

definition digest_upper_a :: ustr where
  "digest_upper_a = [0x37, 0x66, 0x63, 0x35, 0x36, 0x32, 0x37, 0x30, 0x65, 0x37, 0x61, 0x37, 0x30, 0x66, 0x61, 0x38, 0x31, 0x61, 0x35, 0x39, 0x33, 0x35, 0x62, 0x37, 0x32, 0x65, 0x61, 0x63, 0x62, 0x65, 0x32, 0x39]"

text \<open>
  The three opinions of the ensemble scenario, from the sources A, B and C, and the
  weight table that gives them the weights 0.4, 0.3 and 0.3. The table is keyed by the
  lower-cased source names.
\<close>

definition opinion_a :: prediction where
  "opinion_a =
     \<lparr>pred_model = Some [0x41], pred_prediction = danger, pred_confidence = 0.9,
      pred_explanation = []\<rparr>"

definition opinion_b :: prediction where
  "opinion_b =
     \<lparr>pred_model = Some [0x42], pred_prediction = safe, pred_confidence = 0.8,
      pred_explanation = []\<rparr>"

definition opinion_c :: prediction where
  "opinion_c =
     \<lparr>pred_model = Some [0x43], pred_prediction = warning, pred_confidence = 0.7,
      pred_explanation = []\<rparr>"

definition scenario_weights :: "(ustr \<times> real) list" where
  "scenario_weights = [([0x61], 0.4), ([0x62], 0.3), ([0x63], 0.3)]"

section \<open>The detectors contribute non-negative amounts\<close>

lemma add_adjectives_ge: "acc \<le> add_adjectives text adjs acc"
proof (induction adjs arbitrary: acc)
  case Nil
  show ?case by simp
next
  case (Cons adj rest)
  have "acc \<le> (if py_in adj text then acc + 0.05 else acc)" by simp
  also have "\<dots> \<le> add_adjectives text rest (if py_in adj text then acc + 0.05 else acc)"
    by (rule Cons.IH)
  finally show ?case by simp
qed

lemma add_patterns_ge: "acc \<le> add_patterns text ps acc"
proof (induction ps arbitrary: acc)
  case Nil
  show ?case by simp
next
  case (Cons p rest)
  have "acc \<le> (if re_search p text then acc + 0.05 else acc)" by simp
  also have "\<dots> \<le> add_patterns text rest (if re_search p text then acc + 0.05 else acc)"
    by (rule Cons.IH)
  finally show ?case by simp
qed

lemma add_high_rates_ge: "add_high_rates ms acc = Inr x \<Longrightarrow> acc \<le> x"
proof (induction ms arbitrary: acc)
  case Nil
  then show ?case by simp
next
  case (Cons m rest)
  from Cons.prems obtain n where n: "py_int m = Inr n"
    and run: "add_high_rates rest (if n > 20 then acc + 0.1 else acc) = Inr x"
    by (auto split: sum.splits)
  have "acc \<le> (if n > 20 then acc + 0.1 else acc)" by simp
  also have "\<dots> \<le> x" using run by (rule Cons.IH)
  finally show ?case .
qed

lemma detect_language_patterns_nonneg: "0 \<le> detect_language_patterns text"
proof -
  have "0 \<le> add_adjectives text excessive_adjectives 0"
    by (rule add_adjectives_ge)
  moreover have "(0.1::real) \<le> add_adjectives text excessive_adjectives 0.1"
    by (rule add_adjectives_ge)
  ultimately show ?thesis
    by (simp add: detect_language_patterns_def Let_def)
qed

lemma detect_contact_info_nonneg: "0 \<le> detect_contact_info text"
  using add_patterns_ge [of 0 "text" contact_patterns] by (simp add: detect_contact_info_def)

lemma detect_urgency_nonneg: "0 \<le> detect_urgency text"
  by (simp add: detect_urgency_def Let_def)

lemma detect_suspicious_numbers_nonneg:
  assumes "detect_suspicious_numbers text = Inr x"
  shows "0 \<le> x"
proof -
  from assms obtain acc where
    acc: "(if re_search rx_yield text then add_high_rates (findall_percent text) 0 else Inr 0) = Inr acc"
    and x: "x = min (add_patterns text money_patterns acc) 0.3"
    by (auto simp: detect_suspicious_numbers_def split: sum.splits)
  have "0 \<le> acc"
    using acc add_high_rates_ge [of "findall_percent text" 0 acc] by (auto split: if_splits)
  also have "acc \<le> add_patterns text money_patterns acc" by (rule add_patterns_ge)
  finally show ?thesis using x by simp
qed

section \<open>The aggregation in closed form\<close>

lemma scan_category_risk:
  "risk_score (scan_category text a item) =
     risk_score a + min (real (count_keyword_matches text (snd item)) * 0.15) 0.6"
  by (simp add: scan_category_def Let_def)

lemma foldl_scan_category_risk:
  "risk_score (foldl (scan_category text) a kdb) = risk_score a + keyword_score kdb text"
proof (induction kdb arbitrary: a)
  case Nil
  show ?case by (simp add: keyword_score_def)
next
  case (Cons item rest)
  show ?case
    using Cons.IH [of "scan_category text a item"]
    by (simp add: keyword_score_def scan_category_risk)
qed

lemma keyword_score_nonneg: "0 \<le> keyword_score kdb text"
  unfolding keyword_score_def by (induction kdb) simp_all

lemma score_finish_detection: "score (finish_detection a did) = min (risk_score a) 1"
  by (simp add: finish_detection_def Let_def)

lemma finish_detection_ok: "0 \<le> risk_score a \<Longrightarrow> result_ok (finish_detection a did)"
  by (auto simp: finish_detection_def result_ok_def Let_def min_def)

lemma perform_detection_score:
  assumes "detect_suspicious_numbers text = Inr number_score"
  shows "perform_detection kdb text did =
           Inr (finish_detection
                  (scan_numbers number_score
                     (scan_urgency text
                        (scan_contact_info text
                           (scan_language_patterns text
                              (foldl (scan_category text) init_acc kdb))))) did)"
  using assms by (simp add: perform_detection_def Let_def)

lemma risk_before_numbers:
  "risk_score (scan_urgency text (scan_contact_info text (scan_language_patterns text
      (foldl (scan_category text) init_acc kdb)))) =
   (let pattern = (if detect_language_patterns text > 0.1 then detect_language_patterns text else 0);
        running = keyword_score kdb text + pattern;
        contact = (if running > 0 then detect_contact_info text else 0);
        urgency = (if detect_urgency text > 0.1 then detect_urgency text else 0)
    in running + contact + urgency)"
proof -
  have c0: "detect_contact_info text = 0 \<or> 0 < detect_contact_info text"
    using detect_contact_info_nonneg [of "text"] by linarith
  have r0: "risk_score (foldl (scan_category text) init_acc kdb) = keyword_score kdb text"
    by (simp add: foldl_scan_category_risk init_acc_def)
  show ?thesis
    using c0
    by (auto simp: scan_urgency_def scan_contact_info_def scan_language_patterns_def Let_def r0)
qed

lemma perform_detection_ok:
  assumes "perform_detection kdb text did = Inr r"
  shows "result_ok r"
proof -
  from assms obtain n where n: "detect_suspicious_numbers text = Inr n"
    by (auto simp: perform_detection_def Let_def split: sum.splits)
  let ?a = "scan_urgency text (scan_contact_info text (scan_language_patterns text
              (foldl (scan_category text) init_acc kdb)))"
  have r: "r = finish_detection (scan_numbers n ?a) did"
    using assms perform_detection_score [OF n, of kdb did] by simp
  have "0 \<le> risk_score ?a"
    using keyword_score_nonneg [of kdb "text"] detect_language_patterns_nonneg [of "text"]
      detect_contact_info_nonneg [of "text"] detect_urgency_nonneg [of "text"]
    by (simp add: risk_before_numbers Let_def)
  moreover have "0 \<le> n" using n by (rule detect_suspicious_numbers_nonneg)
  ultimately have "0 \<le> risk_score (scan_numbers n ?a)"
    by (simp add: scan_numbers_def)
  then show ?thesis unfolding r by (rule finish_detection_ok)
qed

section \<open>Dictionaries and the cache\<close>

lemma keys_update_in_place:
  "map fst (map (\<lambda>(k', v'). if k' = k then (k', v) else (k', v')) d) = map fst d"
  by (induction d) auto

lemma keys_dict_set:
  "map fst (dict_set d k v) = (if k \<in> fst ` set d then map fst d else map fst d @ [k])"
  using keys_update_in_place [of k v d] by (simp add: dict_set_def del: map_map)

lemma distinct_dict_set:
  assumes "distinct (map fst d)"
  shows "distinct (map fst (dict_set d k v))"
proof (cases "k \<in> fst ` set d")
  case True
  with assms show ?thesis by (simp add: keys_dict_set)
next
  case False
  then have "k \<notin> set (map fst d)" by simp
  with assms False show ?thesis by (simp add: keys_dict_set del: set_map)
qed

lemma update_in_place_other:
  "x \<noteq> k \<Longrightarrow>
     map_of (map (\<lambda>(k', v'). if k' = k then (k', v) else (k', v')) d) x = map_of d x"
  by (induction d) (simp_all add: split_def)

lemma update_in_place_same:
  "k \<in> fst ` set d \<Longrightarrow>
     map_of (map (\<lambda>(k', v'). if k' = k then (k', v) else (k', v')) d) k = Some v"
  by (induction d) (auto simp: split_def)

lemma update_in_place_absent:
  "k \<notin> fst ` set d \<Longrightarrow> map (\<lambda>(k', v'). if k' = k then (k', v) else (k', v')) d = d"
  by (induction d) (auto simp: split_def)

lemma map_of_update_in_place:
  "map_of (map (\<lambda>(k', v'). if k' = k then (k', v) else (k', v')) d) x =
     (if x = k \<and> k \<in> fst ` set d then Some v else map_of d x)"
  using update_in_place_other [of x k v d] update_in_place_same [of k d v]
    update_in_place_absent [of k d v]
  by (cases "x = k"; cases "k \<in> fst ` set d") simp_all

lemma map_of_dict_set: "map_of (dict_set d k v) x = (if x = k then Some v else map_of d x)"
proof (cases "k \<in> fst ` set d")
  case True
  then show ?thesis by (simp add: dict_set_def map_of_update_in_place)
next
  case False
  then have "map_of d k = None" by (simp add: map_of_eq_None_iff)
  with False show ?thesis by (auto simp: dict_set_def map_add_def split: option.splits)
qed

lemma list_all_dict_set:
  assumes "list_all (\<lambda>kv. Q (snd kv)) d" and "Q v"
  shows "list_all (\<lambda>kv. Q (snd kv)) (dict_set d k v)"
  using assms by (auto simp: dict_set_def list_all_iff)

lemma dict_del_absent: "k \<notin> fst ` set d \<Longrightarrow> dict_del d k = d"
  by (induction d) (auto simp: dict_del_def)

lemma distinct_dict_del: "distinct (map fst d) \<Longrightarrow> distinct (map fst (dict_del d k))"
  by (simp add: dict_del_def distinct_map_filter)

lemma list_all_dict_del: "list_all P d \<Longrightarrow> list_all P (dict_del d k)"
  by (simp add: dict_del_def list_all_iff)

lemma distinct_foldl_dict_del:
  "distinct (map fst d) \<Longrightarrow> distinct (map fst (foldl dict_del d ks))"
  by (induction ks arbitrary: d) (simp_all add: distinct_dict_del)

lemma list_all_foldl_dict_del: "list_all P d \<Longrightarrow> list_all P (foldl dict_del d ks)"
  by (induction ks arbitrary: d) (simp_all add: list_all_dict_del)

lemma distinct_cleanup_cache: "distinct (map fst c) \<Longrightarrow> distinct (map fst (cleanup_cache c))"
  by (simp add: cleanup_cache_def Let_def distinct_foldl_dict_del)

lemma list_all_cleanup_cache: "list_all P c \<Longrightarrow> list_all P (cleanup_cache c)"
  by (simp add: cleanup_cache_def Let_def list_all_foldl_dict_del)

text \<open>Deleting the first \<open>n\<close> keys of a dictionary, one by one, drops its first \<open>n\<close> entries.\<close>

lemma foldl_dict_del_prefix:
  "distinct (map fst c) \<Longrightarrow> foldl dict_del c (map fst (take n c)) = drop n c"
proof (induction c arbitrary: n)
  case Nil
  show ?case by simp
next
  case (Cons x xs)
  show ?case
  proof (cases n)
    case 0
    then show ?thesis by simp
  next
    case (Suc m)
    from Cons.prems have absent: "fst x \<notin> fst ` set xs" and dist: "distinct (map fst xs)"
      by simp_all
    have "dict_del (x # xs) (fst x) = dict_del xs (fst x)"
      by (simp add: dict_del_def split_def)
    also have "\<dots> = xs" using absent by (rule dict_del_absent)
    finally have "dict_del (x # xs) (fst x) = xs" .
    with Suc Cons.IH [OF dist, of m] show ?thesis by simp
  qed
qed

lemma cleanup_cache_drop:
  assumes "distinct (map fst c)"
  shows "cleanup_cache c = (if length c > 1000 then drop (length c div 2) c else c)"
  using foldl_dict_del_prefix [OF assms, of "length c div 2"]
  by (simp add: cleanup_cache_def Let_def take_map)

text \<open>A key stored last survives the clean-up.\<close>

lemma map_of_cleanup_after_store:
  assumes dist: "distinct (map fst c)" and absent: "map_of c k = None"
  shows "map_of (cleanup_cache (dict_set c k v)) k = Some v"
proof -
  from absent have notin: "k \<notin> fst ` set c" by (simp add: map_of_eq_None_iff)
  then have stored: "dict_set c k v = c @ [(k, v)]" by (simp add: dict_set_def)
  have dist': "distinct (map fst (c @ [(k, v)]))" using dist notin by simp
  show ?thesis
  proof (cases "length (c @ [(k, v)]) > 1000")
    case False
    with dist' absent show ?thesis
      by (simp add: stored cleanup_cache_drop map_add_def)
  next
    case True
    let ?n = "length (c @ [(k, v)]) div 2"
    have le: "?n \<le> length c" using True by simp
    have "cleanup_cache (c @ [(k, v)]) = drop ?n c @ [(k, v)]"
      using True le by (simp add: cleanup_cache_drop [OF dist'])
    moreover have "map_of (drop ?n c) k = None"
      using notin by (auto simp: map_of_eq_None_iff dest: in_set_dropD)
    ultimately show ?thesis by (simp add: stored map_add_def)
  qed
qed

section \<open>Statistics\<close>

lemma update_statistics_returns:
  assumes "total_detections st \<noteq> - 1"
  shows "\<exists>st'. update_statistics st r pt = Inr st' \<and> total_detections st' = total_detections st + 1"
  using assms by (auto simp: update_statistics_def Let_def)

lemma update_statistics_total:
  "update_statistics st r pt = Inr st' \<Longrightarrow> total_detections st' = total_detections st + 1"
  by (auto simp: update_statistics_def Let_def split: if_splits)

lemma update_statistics_raises:
  "update_statistics st r pt = Inl (e, st') \<Longrightarrow> total_detections st = - 1"
  by (auto simp: update_statistics_def Let_def split: if_splits)

section \<open>The paths through detect_text\<close>

lemma try_key_error:
  assumes "generate_cache_key text = Inl e"
  shows "detect_text_try s text did pt = Inl (e, s)"
  using assms by (simp add: detect_text_try_def)

lemma try_hit:
  assumes "generate_cache_key text = Inr k" and "map_of (cache s) k = Some c"
  shows "detect_text_try s text did pt =
           Inr (c\<lparr>detection_id := did\<rparr>,
                s\<lparr>cache := dict_set (cache s) k (c\<lparr>detection_id := did\<rparr>)\<rparr>)"
  using assms by (simp add: detect_text_try_def Let_def)

lemma try_detector_error:
  assumes "generate_cache_key text = Inr k" and "map_of (cache s) k = None"
    and "perform_detection (keywords_db s) (preprocess_text text) did = Inl e"
  shows "detect_text_try s text did pt = Inl (e, s)"
  using assms by (simp add: detect_text_try_def Let_def)

lemma try_miss:
  assumes "generate_cache_key text = Inr k" and "map_of (cache s) k = None"
    and "perform_detection (keywords_db s) (preprocess_text text) did = Inr r"
    and "update_statistics (statistics s) r pt = Inr st"
  shows "detect_text_try s text did pt =
           Inr (r, s\<lparr>cache := cleanup_cache (dict_set (cache s) k r), statistics := st\<rparr>)"
  using assms by (simp add: detect_text_try_def Let_def)

lemma body_of_try:
  "detect_text_try s t did pt = Inr out \<Longrightarrow> detect_text_body s t did pt = out"
  by (simp add: detect_text_body_def)

lemma body_of_failed_try:
  "detect_text_try s t did pt = Inl (e, s') \<Longrightarrow>
     detect_text_body s t did pt = (fallback_result did, s')"
  by (simp add: detect_text_body_def)

text \<open>The decorator fails on its look-up of \<open>time\<close>, whatever the method body returned.\<close>

lemma lookup_time: "lookup_name ''time'' = Inl NameError"
  by (simp add: lookup_name_def wrapper_scopes_def logging_config_globals_def builtins_used_def)

lemma detect_text_outcome:
  "detect_text s text did pt = Inl (NameError, snd (detect_text_body s text did pt))"
  by (simp add: detect_text_def log_detection_result_def lookup_time split: prod.splits)

lemma engine_after_detect_text:
  "engine_after (detect_text s text did pt) = snd (detect_text_body s text did pt)"
  by (simp add: detect_text_outcome engine_after_def)

text \<open>The constructor fails on its first assignment.\<close>

lemma new_engine_raises: "new_engine = Inl AttributeError"
  by (simp add: new_engine_def set_attribute_def readonly_properties_def)

lemma initial_attributes_inv: "engine_inv initial_attributes"
  by (simp add: engine_inv_def initial_attributes_def new_statistics_def)

text \<open>
  A text that went through \<open>_preprocess_text\<close> holds no per cent sign, so the numeric
  detector finds no percentage to convert and the aggregation returns.
\<close>

lemma percent_not_kept: "\<not> is_kept 0x25"
  by (simp add: is_kept_def kept_punctuation_def is_space_def space_ranges_def is_word_def
      word_ranges_for_def word_ranges_0_def)

lemma no_percent_preprocessed: "0x25 \<notin> set (preprocess_text t)"
  using percent_not_kept by (auto simp: preprocess_text_def Let_def)

lemma findall_percent_none: "0x25 \<notin> set t \<Longrightarrow> findall_percent t = []"
proof (induction t rule: findall_percent.induct)
  case 1
  show ?case by simp
next
  case (2 c cs)
  show ?case
  proof (cases "is_digit c")
    case False
    with 2 show ?thesis by simp
  next
    case True
    show ?thesis
    proof (cases "dropWhile is_digit cs")
      case Nil
      show ?thesis by (simp add: True Nil)
    next
      case (Cons r rs)
      have sub: "set (r # rs) \<subseteq> set cs"
        using set_dropWhileD [of _ is_digit cs] unfolding Cons [symmetric] by blast
      with 2(4) have r: "r \<noteq> 0x25" and rs: "0x25 \<notin> set rs" by auto
      from 2(2) [OF True Cons r rs] have "findall_percent rs = []" .
      with r show ?thesis by (simp add: True Cons)
    qed
  qed
qed

lemma numbers_preprocessed:
  "\<exists>n. detect_suspicious_numbers (preprocess_text t) = Inr n"
  by (simp add: detect_suspicious_numbers_def findall_percent_none [OF no_percent_preprocessed])

lemma perform_detection_preprocessed:
  "\<exists>r. perform_detection kdb (preprocess_text t) did = Inr r"
proof -
  obtain n where "detect_suspicious_numbers (preprocess_text t) = Inr n"
    using numbers_preprocessed by blast
  then show ?thesis by (simp add: perform_detection_score)
qed

text \<open>
  In a consistent engine the \<open>try\<close> block completes whenever the text can be encoded,
  and a call of the body keeps the engine consistent.
\<close>

lemma try_completes:
  assumes inv: "engine_inv s" and key: "generate_cache_key t = Inr k"
  shows "\<exists>r s'. detect_text_try s t did pt = Inr (r, s')"
proof (cases "map_of (cache s) k")
  case (Some c)
  from try_hit [OF key Some] show ?thesis by blast
next
  case None
  obtain res where res: "perform_detection (keywords_db s) (preprocess_text t) did = Inr res"
    using perform_detection_preprocessed by blast
  from inv have "total_detections (statistics s) \<noteq> - 1" by (simp add: engine_inv_def)
  then obtain st where "update_statistics (statistics s) res pt = Inr st"
    using update_statistics_returns by blast
  from try_miss [OF key None res this] show ?thesis by blast
qed

lemma try_fails_only_on_key:
  assumes inv: "engine_inv s" and fail: "detect_text_try s t did pt = Inl (e, s')"
  shows "generate_cache_key t = Inl e \<and> s' = s"
proof (cases "generate_cache_key t")
  case (Inl e')
  with fail show ?thesis by (simp add: detect_text_try_def)
next
  case (Inr k)
  from try_completes [OF inv Inr, of did pt] fail show ?thesis by auto
qed

lemma detect_text_body_inv:
  assumes inv: "engine_inv s" and run: "detect_text_body s text did pt = (r, s')"
  shows "engine_inv s'"
proof (cases "detect_text_try s text did pt")
  case (Inl es)
  obtain e s1 where es: "es = (e, s1)" by (cases es)
  from try_fails_only_on_key [OF inv Inl [unfolded es]] have "s1 = s" by simp
  with run Inl es inv show ?thesis by (simp add: detect_text_body_def)
next
  case (Inr out)
  from run Inr have try1: "detect_text_try s text did pt = Inr (r, s')"
    by (simp add: detect_text_body_def)
  then obtain k where key: "generate_cache_key text = Inr k"
    by (auto simp: detect_text_try_def split: sum.splits)
  show ?thesis
  proof (cases "map_of (cache s) k")
    case (Some c)
    from try1 try_hit [OF key Some, of did pt]
    have "s' = s\<lparr>cache := dict_set (cache s) k (c\<lparr>detection_id := did\<rparr>)\<rparr>" by auto
    with inv show ?thesis by (simp add: engine_inv_def distinct_dict_set)
  next
    case None
    from try1 key None obtain res st where
      res: "perform_detection (keywords_db s) (preprocess_text text) did = Inr res"
      and st: "update_statistics (statistics s) res pt = Inr st"
      by (auto simp: detect_text_try_def Let_def split: sum.splits)
    from try1 try_miss [OF key None res st]
    have s': "s' = s\<lparr>cache := cleanup_cache (dict_set (cache s) k res), statistics := st\<rparr>"
      by auto
    from inv update_statistics_total [OF st] show ?thesis
      unfolding s' by (simp add: engine_inv_def distinct_cleanup_cache distinct_dict_set)
  qed
qed

section \<open>Evaluating patterns and character classes\<close>

lemma dead_not_nullable: "dead r \<Longrightarrow> \<not> nullable r"
  by (induction r) auto

lemma dead_deriv: "dead r \<Longrightarrow> dead (deriv c r)"
  by (induction r) (auto simp: dead_not_nullable)

lemma re_match_dead: "dead r \<Longrightarrow> re_match r cs = False"
  by (induction cs arbitrary: r) (auto simp: dead_not_nullable dead_deriv)

lemma Rep_2: "Rep 2 r = Cat r (Cat r Eps)"
  by (simp add: eval_nat_numeral)

lemma Rep_11:
  "Rep 11 r =
     Cat r (Cat r (Cat r (Cat r (Cat r (Cat r (Cat r (Cat r (Cat r (Cat r (Cat r Eps))))))))))"
  by (simp add: eval_nat_numeral)

lemmas rx_eval = Chr_def Plus_def Digit_def Dot_def Rep_2 Rep_11 re_match_dead

lemma cjk_lower: "0x4E00 \<le> c \<Longrightarrow> c \<le> 0x9FFF \<Longrightarrow> lower_in lower_table c = c"
  by (simp add: lower_table_def)

lemma cjk_not_digit: "0x4E00 \<le> c \<Longrightarrow> c \<le> 0x9FFF \<Longrightarrow> \<not> is_digit c"
  by (simp add: is_digit_def digit_ranges_def)

lemma cjk_not_space: "0x4E00 \<le> c \<Longrightarrow> c \<le> 0x9FFF \<Longrightarrow> \<not> is_space c"
  by (simp add: is_space_def space_ranges_def)

lemma plain_lower: "plain_char c \<Longrightarrow> py_lower_char c = [c]"
  unfolding plain_char_def
proof (elim disjE conjE)
  assume "0x4E00 \<le> c" and "c \<le> 0x9FFF"
  then show ?thesis by (simp add: py_lower_char_def cjk_lower)
next
  assume "c = 0xFF0C"
  then show ?thesis by (simp add: py_lower_char_def lower_table_def)
next
  assume "c = 0xFF01"
  then show ?thesis by (simp add: py_lower_char_def lower_table_def)
qed

lemma plain_not_digit: "plain_char c \<Longrightarrow> is_digit c = False"
  unfolding plain_char_def
  by (elim disjE conjE) (simp_all add: cjk_not_digit, simp_all add: is_digit_def digit_ranges_def)

lemma plain_not_space: "plain_char c \<Longrightarrow> is_space c = False"
  unfolding plain_char_def
  by (elim disjE conjE) (simp_all add: cjk_not_space, simp_all add: is_space_def space_ranges_def)

lemma plain_kept: "plain_char c \<Longrightarrow> is_kept c"
  unfolding plain_char_def
  by (elim disjE conjE) (simp_all add: is_kept_def kept_punctuation_def)

lemma py_lower_plain: "list_all plain_char t \<Longrightarrow> py_lower t = t"
  by (induction t) (simp_all add: py_lower_def plain_lower)

lemma collapse_ws_plain: "list_all plain_char t \<Longrightarrow> collapse_ws t = t"
  by (induction t) (simp_all add: plain_not_space)

lemma py_strip_plain:
  assumes "list_all plain_char t"
  shows "py_strip t = t"
proof -
  have front: "dropWhile is_space t = t"
    using assms by (cases t) (simp_all add: plain_not_space)
  have "list_all plain_char (rev t)" using assms by (simp add: list_all_iff)
  then have "dropWhile is_space (rev t) = rev t"
    by (cases "rev t") (simp_all add: plain_not_space)
  with front show ?thesis by (simp add: py_strip_def)
qed

lemma filter_kept_plain: "list_all plain_char t \<Longrightarrow> filter is_kept t = t"
  by (induction t) (simp_all add: plain_kept)

text \<open>Preprocessing leaves a text of plain characters as it is.\<close>

lemma preprocess_plain: "list_all plain_char t \<Longrightarrow> preprocess_text t = t"
  by (simp add: preprocess_text_def Let_def py_lower_plain collapse_ws_plain py_strip_plain
      filter_kept_plain)

lemma utf8_char_plain: "plain_char c \<Longrightarrow> \<exists>bs. utf8_char c = Inr bs"
  by (auto simp: plain_char_def utf8_char_def)

lemma cache_key_plain: "list_all plain_char t \<Longrightarrow> \<exists>k. generate_cache_key t = Inr k"
proof -
  have "list_all plain_char t \<Longrightarrow> \<exists>bs. utf8_encode t = Inr bs"
  proof (induction t)
    case Nil
    show ?case by simp
  next
    case (Cons c cs)
    then obtain b bs where "utf8_char c = Inr b" and "utf8_encode cs = Inr bs"
      using utf8_char_plain by fastforce
    then show ?case by simp
  qed
  then show "list_all plain_char t \<Longrightarrow> \<exists>k. generate_cache_key t = Inr k"
    by (auto simp: generate_cache_key_def)
qed

text \<open>
  On the initial attribute values the \<open>try\<close> block misses the cache, stores its result
  and counts one detection.
\<close>

lemma try_on_initial:
  assumes key: "generate_cache_key t = Inr k"
    and res: "perform_detection load_keywords (preprocess_text t) did = Inr r"
  shows "\<exists>st. detect_text_try initial_attributes t did pt =
                 Inr (r, initial_attributes\<lparr>cache := [(k, r)], statistics := st\<rparr>) \<and>
               total_detections st = 1"
proof -
  have none: "map_of (cache initial_attributes) k = None" by (simp add: initial_attributes_def)
  have res': "perform_detection (keywords_db initial_attributes) (preprocess_text t) did = Inr r"
    using res by (simp add: initial_attributes_def)
  have "total_detections (statistics initial_attributes) \<noteq> - 1"
    by (simp add: initial_attributes_def new_statistics_def)
  then obtain st where st: "update_statistics (statistics initial_attributes) r pt = Inr st"
    and "total_detections st = total_detections (statistics initial_attributes) + 1"
    using update_statistics_returns by blast
  then have one: "total_detections st = 1"
    by (simp add: initial_attributes_def new_statistics_def)
  have "cleanup_cache (dict_set (cache initial_attributes) k r) = [(k, r)]"
    by (simp add: initial_attributes_def dict_set_def cleanup_cache_def)
  with try_miss [OF key none res' st] one show ?thesis by auto
qed

section \<open>The scenario texts\<close>

lemmas keyword_tables = load_keywords_def financial_fraud_keywords_def medical_fraud_keywords_def
  general_fraud_keywords_def emotional_manipulation_keywords_def

lemma deadline_plain: "list_all plain_char text_deadline"
  by (simp add: text_deadline_def plain_char_def)

lemma deadline_keywords: "keyword_score load_keywords text_deadline = 0"
  by (simp add: keyword_score_def keyword_tables text_deadline_def)

lemma deadline_patterns: "detect_language_patterns text_deadline = 0"
  by (simp add: detect_language_patterns_def text_deadline_def rx_repeated_marks_def
      rx_exaggerated_number_def excessive_adjectives_def rx_eval plain_not_digit plain_char_def)

lemma deadline_contact: "detect_contact_info text_deadline = 0"
  by (simp add: detect_contact_info_def text_deadline_def contact_patterns_def rx_eval
      plain_not_digit plain_not_space plain_char_def)

lemma deadline_urgency: "detect_urgency text_deadline = 0.05"
  by (simp add: detect_urgency_def text_deadline_def urgency_words_def)

lemma deadline_numbers: "detect_suspicious_numbers text_deadline = Inr 0"
  by (simp add: detect_suspicious_numbers_def text_deadline_def rx_yield_def money_patterns_def
      rx_eval plain_not_digit plain_char_def)


lemma deadline_result:
  "perform_detection load_keywords text_deadline did = Inr (finish_detection init_acc did)"
proof -
  have "foldl (scan_category text_deadline) init_acc load_keywords = init_acc"
    by (simp add: scan_category_def Let_def keyword_tables text_deadline_def)
  then show ?thesis
    by (simp add: perform_detection_score [OF deadline_numbers] scan_language_patterns_def
        deadline_patterns scan_contact_info_def deadline_contact scan_urgency_def
        deadline_urgency scan_numbers_def Let_def)
qed

lemma cooking_plain: "list_all plain_char text_cooking"
  by (simp add: text_cooking_def plain_char_def)

lemma cooking_scan: "foldl (scan_category text_cooking) init_acc load_keywords = init_acc"
  by (simp add: scan_category_def Let_def keyword_tables text_cooking_def)

lemma cooking_patterns: "detect_language_patterns text_cooking = 0"
  by (simp add: detect_language_patterns_def text_cooking_def rx_repeated_marks_def
      rx_exaggerated_number_def excessive_adjectives_def rx_eval plain_not_digit plain_char_def)

lemma cooking_contact: "detect_contact_info text_cooking = 0"
  by (simp add: detect_contact_info_def text_cooking_def contact_patterns_def rx_eval
      plain_not_digit plain_not_space plain_char_def)

lemma cooking_urgency: "detect_urgency text_cooking = 0"
  by (simp add: detect_urgency_def text_cooking_def urgency_words_def)

lemma cooking_numbers: "detect_suspicious_numbers text_cooking = Inr 0"
  by (simp add: detect_suspicious_numbers_def text_cooking_def rx_yield_def money_patterns_def
      rx_eval plain_not_digit plain_char_def)

lemma cooking_result:
  "perform_detection load_keywords text_cooking did = Inr (finish_detection init_acc did)"
  by (simp add: perform_detection_score [OF cooking_numbers] cooking_scan
      scan_language_patterns_def cooking_patterns scan_contact_info_def cooking_contact
      scan_urgency_def cooking_urgency scan_numbers_def Let_def)

lemma investment_plain: "list_all plain_char text_investment"
  by (simp add: text_investment_def plain_char_def)

lemma investment_matches: "count_keyword_matches text_investment financial_fraud_keywords = 1"
  by (simp add: financial_fraud_keywords_def text_investment_def)

lemma investment_scan:
  "foldl (scan_category text_investment) init_acc load_keywords =
     \<lparr>risk_score = 0.15,
      acc_reasons = [category_reason 1 s_financial_fraud],
      acc_suggestions = category_suggestions s_financial_fraud,
      acc_categories = [s_financial_fraud],
      keywords_found = [[0x4FDD, 0x8BC1, 0x6536, 0x76CA]]\<rparr>"
  by (simp add: scan_category_def Let_def keyword_tables text_investment_def init_acc_def)

lemma investment_patterns: "detect_language_patterns text_investment = 0"
  by (simp add: detect_language_patterns_def text_investment_def rx_repeated_marks_def
      rx_exaggerated_number_def excessive_adjectives_def rx_eval plain_not_digit plain_char_def)

lemma investment_contact: "detect_contact_info text_investment = 0"
  by (simp add: detect_contact_info_def text_investment_def contact_patterns_def rx_eval
      plain_not_digit plain_not_space plain_char_def)

lemma investment_urgency: "detect_urgency text_investment = 0"
  by (simp add: detect_urgency_def text_investment_def urgency_words_def)

lemma investment_numbers: "detect_suspicious_numbers text_investment = Inr 0"
  by (simp add: detect_suspicious_numbers_def text_investment_def rx_yield_def
      money_patterns_def rx_eval plain_not_digit plain_char_def)

lemma investment_result:
  "perform_detection load_keywords text_investment did =
     Inr (finish_detection
            \<lparr>risk_score = 0.15,
             acc_reasons = [category_reason 1 s_financial_fraud],
             acc_suggestions = category_suggestions s_financial_fraud,
             acc_categories = [s_financial_fraud],
             keywords_found = [[0x4FDD, 0x8BC1, 0x6536, 0x76CA]]\<rparr> did)"
  by (simp add: perform_detection_score [OF investment_numbers] investment_scan
      scan_language_patterns_def investment_patterns scan_contact_info_def investment_contact
      scan_urgency_def investment_urgency scan_numbers_def Let_def)

lemma three_plain: "list_all plain_char text_three_promises"
  by (simp add: text_three_promises_def plain_char_def)

lemma three_keywords: "keyword_score load_keywords text_three_promises = 0.45"
  by (simp add: keyword_score_def keyword_tables text_three_promises_def)

lemma three_patterns: "detect_language_patterns text_three_promises = 0"
  by (simp add: detect_language_patterns_def text_three_promises_def rx_repeated_marks_def
      rx_exaggerated_number_def excessive_adjectives_def rx_eval plain_not_digit plain_char_def)

lemma three_contact: "detect_contact_info text_three_promises = 0"
  by (simp add: detect_contact_info_def text_three_promises_def contact_patterns_def rx_eval
      plain_not_digit plain_not_space plain_char_def)

lemma three_urgency: "detect_urgency text_three_promises = 0"
  by (simp add: detect_urgency_def text_three_promises_def urgency_words_def)

lemma three_numbers: "detect_suspicious_numbers text_three_promises = Inr 0"
  by (simp add: detect_suspicious_numbers_def text_three_promises_def rx_yield_def
      money_patterns_def rx_eval plain_not_digit plain_char_def)

lemma three_result:
  "\<exists>r. perform_detection load_keywords (preprocess_text text_three_promises) did = Inr r \<and>
        score r = 0.45"
  by (simp add: preprocess_plain [OF three_plain] perform_detection_score [OF three_numbers]
      score_finish_detection scan_numbers_def risk_before_numbers three_keywords three_patterns
      three_contact three_urgency)

lemma eight_plain: "list_all plain_char text_eight_promises"
  by (simp add: text_eight_promises_def plain_char_def)

lemma eight_keywords: "keyword_score load_keywords text_eight_promises = 1.2"
  by (simp add: keyword_score_def keyword_tables text_eight_promises_def)

lemma eight_patterns: "detect_language_patterns text_eight_promises = 0"
  by (simp add: detect_language_patterns_def text_eight_promises_def rx_repeated_marks_def
      rx_exaggerated_number_def excessive_adjectives_def rx_eval plain_not_digit plain_char_def)

lemma eight_contact: "detect_contact_info text_eight_promises = 0"
  by (simp add: detect_contact_info_def text_eight_promises_def contact_patterns_def rx_eval
      plain_not_digit plain_not_space plain_char_def)

lemma eight_urgency: "detect_urgency text_eight_promises = 0"
  by (simp add: detect_urgency_def text_eight_promises_def urgency_words_def)

lemma eight_numbers: "detect_suspicious_numbers text_eight_promises = Inr 0"
  by (simp add: detect_suspicious_numbers_def text_eight_promises_def rx_yield_def
      money_patterns_def rx_eval plain_not_digit plain_char_def)

lemma eight_result:
  "\<exists>r. perform_detection load_keywords (preprocess_text text_eight_promises) did = Inr r \<and>
        score r = 1"
  by (simp add: preprocess_plain [OF eight_plain] perform_detection_score [OF eight_numbers]
      score_finish_detection scan_numbers_def risk_before_numbers eight_keywords eight_patterns
      eight_contact eight_urgency)

text \<open>The cooking lesson on the initial attribute values: the first run and its state.\<close>

lemma cooking_first_run:
  "\<exists>k st. generate_cache_key text_cooking = Inr k \<and>
     detect_text_try initial_attributes text_cooking did pt =
       Inr (finish_detection init_acc did,
            initial_attributes\<lparr>cache := [(k, finish_detection init_acc did)], statistics := st\<rparr>) \<and>
     total_detections st = 1"
proof -
  obtain k where key: "generate_cache_key text_cooking = Inr k"
    using cache_key_plain [OF cooking_plain] by blast
  have res: "perform_detection load_keywords (preprocess_text text_cooking) did =
      Inr (finish_detection init_acc did)"
    by (simp add: preprocess_plain [OF cooking_plain] cooking_result)
  from try_on_initial [OF key res, of pt] key show ?thesis by blast
qed

section \<open>Claims about the aggregate\<close>

text \<open>
  Claim C3, as evaluated on the code. The claim says that the reasons are never empty:
  a text on which no detector fires gets the reason "no risk factors found" and the
  suggestion "content appears safe". For the cooking lesson no detector fires:
  \<open>_perform_detection\<close> returns a Safe result with score 0 whose reasons and suggestions
  are both empty, and so does the body of \<open>detect_text\<close> on the initial attribute values.
\<close>

theorem cooking_lesson_has_empty_reasons:
  "(\<exists>r. perform_detection load_keywords (preprocess_text text_cooking) did = Inr r \<and>
      level r = SAFE \<and> score r = 0 \<and> reasons r = [] \<and> suggestions r = []) \<and>
   (\<exists>r s'. detect_text_body initial_attributes text_cooking did pt = (r, s') \<and>
      level r = SAFE \<and> score r = 0 \<and> reasons r = [] \<and> suggestions r = [])"
proof -
  have res: "perform_detection load_keywords (preprocess_text text_cooking) did =
      Inr (finish_detection init_acc did)"
    by (simp add: preprocess_plain [OF cooking_plain] cooking_result)
  have empty: "level (finish_detection init_acc did) = SAFE \<and>
      score (finish_detection init_acc did) = 0 \<and> reasons (finish_detection init_acc did) = [] \<and>
      suggestions (finish_detection init_acc did) = []"
    by (simp add: finish_detection_def init_acc_def Let_def)
  from cooking_first_run [of did pt] obtain s' where
    "detect_text_body initial_attributes text_cooking did pt = (finish_detection init_acc did, s')"
    by (auto dest: body_of_try)
  with res empty show ?thesis by auto
qed

text \<open>
  Claim C4 as stated fails: the claim has every non-zero urgency contribution in the sum.
  The text of the single urgency word "deadline" has an urgency contribution of 0.05 and
  no other contribution; the clamped sum of the contributions is 0.05, the score of the
  code is 0.
\<close>

theorem single_urgency_word_counterexample:
  "detect_urgency text_deadline = 0.05 \<and>
   detect_suspicious_numbers text_deadline = Inr 0 \<and>
   spec_total_score load_keywords text_deadline 0 = 0.05 \<and>
   perform_detection load_keywords text_deadline [] = Inr (finish_detection init_acc []) \<and>
   score (finish_detection init_acc []) = 0"
  by (simp add: deadline_urgency deadline_numbers deadline_result spec_total_score_def
      deadline_keywords deadline_patterns deadline_contact score_finish_detection init_acc_def)

text \<open>
  Claim C4, amended. Whenever the numeric detector does not raise, the aggregate score is
  the clamped sum of the keyword contribution, the language-pattern contribution if it
  exceeds 0.1, the contact contribution if the running total is positive, the urgency
  contribution if it exceeds 0.1, and the numeric contribution.
\<close>

theorem aggregate_score_is_gated_sum:
  assumes "detect_suspicious_numbers text = Inr number_score"
  shows "\<exists>r. perform_detection kdb text did = Inr r \<and>
           score r = gated_total_score kdb text number_score"
proof -
  have "0 \<le> number_score" using assms by (rule detect_suspicious_numbers_nonneg)
  then show ?thesis
    by (simp add: perform_detection_score [OF assms] score_finish_detection scan_numbers_def
        risk_before_numbers gated_total_score_def Let_def)
qed

theorem aggregate_score_is_gated_sum_witness:
  "detect_suspicious_numbers text_deadline = Inr 0 \<and>
   (\<exists>r. perform_detection load_keywords text_deadline [] = Inr r \<and>
      score r = gated_total_score load_keywords text_deadline 0)"
  using aggregate_score_is_gated_sum [OF deadline_numbers, of load_keywords "[]"]
    deadline_numbers by simp

text \<open>
  Claim C5, as evaluated on the code. The claim has at least two financial keywords
  matching on the investment advertisement and a Danger verdict with a score of at least
  0.7. Of the keyword table only the phrase for guaranteed returns occurs in the text (the
  table holds "monthly income of ten thousand" and "risk-free investment", the text says
  "monthly income of thirty thousand" and "risk-free"): one match, no other detector
  fires, and \<open>_perform_detection\<close> returns level Safe with score 0.15.
\<close>

theorem investment_text_scored_safe:
  "count_keyword_matches (preprocess_text text_investment) financial_fraud_keywords = 1 \<and>
   (\<exists>r. perform_detection load_keywords (preprocess_text text_investment) did = Inr r \<and>
      categories r = [s_financial_fraud] \<and> matched_keywords r = [[0x4FDD, 0x8BC1, 0x6536, 0x76CA]] \<and>
      score r = 0.15 \<and> level r = SAFE)"
proof -
  have "count_keyword_matches (preprocess_text text_investment) financial_fraud_keywords = 1"
    by (simp add: preprocess_plain [OF investment_plain] investment_matches)
  moreover
  have "\<exists>r. perform_detection load_keywords (preprocess_text text_investment) did = Inr r \<and>
      categories r = [s_financial_fraud] \<and> matched_keywords r = [[0x4FDD, 0x8BC1, 0x6536, 0x76CA]] \<and>
      score r = 0.15 \<and> level r = SAFE"
    by (simp add: preprocess_plain [OF investment_plain] investment_result finish_detection_def
        Let_def)
  ultimately show ?thesis by simp
qed

section \<open>Claims about single detections\<close>

text \<open>
  Claim C1. For every keyword table, every text and every identifier, a result of
  \<open>_perform_detection\<close> has a score between 0 and 1 and a level determined by the score
  through the fixed thresholds: Danger from 0.7, Warning from 0.4 below 0.7, Safe below
  0.4.
\<close>

theorem score_in_unit_interval_level_by_threshold:
  assumes "perform_detection kdb text did = Inr r"
  shows "0 \<le> score r \<and> score r \<le> 1 \<and>
         level r = (if score r \<ge> 0.7 then DANGER else if score r \<ge> 0.4 then WARNING else SAFE)"
  using perform_detection_ok [OF assms] by (simp add: result_ok_def)

text \<open>
  On the advertisement with eight promises the contributions add up to 1.2: the score is
  clamped to 1 and the level is Danger. On the one with three promises the score is 0.45
  and the level is Warning.
\<close>

theorem score_in_unit_interval_level_by_threshold_witness:
  "keyword_score load_keywords text_eight_promises = 1.2 \<and>
   (\<exists>r. perform_detection load_keywords (preprocess_text text_eight_promises) id_first = Inr r \<and>
      score r = 1 \<and> level r = DANGER) \<and>
   (\<exists>r. perform_detection load_keywords (preprocess_text text_three_promises) id_first = Inr r \<and>
      score r = 0.45 \<and> level r = WARNING)"
proof -
  from eight_result [of id_first] obtain r8 where
    r8: "perform_detection load_keywords (preprocess_text text_eight_promises) id_first = Inr r8"
    and s8: "score r8 = 1" by blast
  from three_result [of id_first] obtain r3 where
    r3: "perform_detection load_keywords (preprocess_text text_three_promises) id_first = Inr r3"
    and s3: "score r3 = 0.45" by blast
  from score_in_unit_interval_level_by_threshold [OF r8] s8 have "level r8 = DANGER" by simp
  moreover
  from score_in_unit_interval_level_by_threshold [OF r3] s3 have "level r3 = WARNING" by simp
  ultimately show ?thesis using r8 s8 r3 s3 eight_keywords by blast
qed

text \<open>
  Claim C2, as evaluated on the code. The claim says that \<open>detect_text\<close> never raises.
  The body of the method keeps that promise, its \<open>except\<close> branch returns the fallback
  result; the decorator around the method then raises \<open>NameError\<close> on every call, after
  the body has run.
\<close>

theorem detect_text_raises_name_error:
  "detect_text s text did pt = Inl (NameError, snd (detect_text_body s text did pt))"
  by (simp add: detect_text_def log_detection_result_def lookup_name_def wrapper_scopes_def
      logging_config_globals_def builtins_used_def split: prod.splits)


section \<open>Claims about the cache\<close>

lemma put_all_snoc: "put_all c (kvs @ [kv]) = cache_put (put_all c kvs) (fst kv) (snd kv)"
  by (simp add: put_all_def)

lemma cache_put_fresh:
  assumes "fst kv \<notin> fst ` set c" and "length c < 1000"
  shows "cache_put c (fst kv) (snd kv) = c @ [kv]"
  using assms by (simp add: cache_put_def dict_set_def cleanup_cache_def)

text \<open>Below the ceiling, stores of distinct keys only append.\<close>

lemma put_all_below_ceiling:
  "distinct (map fst kvs) \<Longrightarrow> length kvs \<le> 1000 \<Longrightarrow> put_all [] kvs = kvs"
proof (induction kvs rule: rev_induct)
  case Nil
  show ?case by (simp add: put_all_def)
next
  case (snoc kv kvs)
  from snoc.prems have ih: "put_all [] kvs = kvs" and fresh: "fst kv \<notin> fst ` set kvs"
    and len: "length kvs < 1000"
    using snoc.IH by simp_all
  show ?case
    by (simp only: put_all_snoc ih cache_put_fresh [OF fresh len])
qed

lemma cache_put_bounded:
  assumes "distinct (map fst c)" and "length c \<le> 1000"
  shows "length (cache_put c k v) \<le> 1000"
proof -
  have dist: "distinct (map fst (dict_set c k v))" using assms(1) by (rule distinct_dict_set)
  have "length (dict_set c k v) \<le> 1001"
    using assms(2) by (simp add: dict_set_def)
  then have "length (drop (length (dict_set c k v) div 2) (dict_set c k v)) \<le> 1000"
    by simp
  then show ?thesis
    by (cases "length (dict_set c k v) > 1000")
      (simp_all add: cache_put_def cleanup_cache_drop [OF dist])
qed

text \<open>
  Claim C6. After 1001 stores of distinct fingerprints into an empty cache, the size
  has never exceeded 1000 after any store, the cache holds exactly the 501 most recent
  entries, and the clean-up of any cache above the ceiling of 1000 entries removes its
  oldest half in insertion order. A store into any cache of at most 1000 entries leaves
  at most 1000 entries.
\<close>

theorem cache_bounded_after_1001_stores:
  assumes "distinct (map fst kvs)" and "length kvs = 1001"
  shows "(\<forall>n \<le> 1001. length (put_all [] (take n kvs)) \<le> 1000) \<and>
         put_all [] kvs = drop 500 kvs \<and>
         (\<forall>c :: ('k \<times> 'v) list. distinct (map fst c) \<and> length c > 1000 \<longrightarrow>
              cleanup_cache c = drop (length c div 2) c) \<and>
         (\<forall>(c :: ('k \<times> 'v) list) k v. distinct (map fst c) \<and> length c \<le> 1000 \<longrightarrow>
              length (cache_put c k v) \<le> 1000)"
proof -
  have small: "put_all [] (take n kvs) = take n kvs" if "n \<le> 1000" for n
  proof -
    have "distinct (map fst (take n kvs))"
      using assms(1) by (simp add: take_map [symmetric] distinct_take)
    moreover have "length (take n kvs) \<le> 1000" using that by simp
    ultimately show ?thesis by (rule put_all_below_ceiling)
  qed
  have kvs: "kvs = butlast kvs @ [last kvs]"
    using assms(2) by (cases kvs rule: rev_cases) simp_all
  have butlast: "butlast kvs = take 1000 kvs"
    using assms(2) by (simp add: butlast_conv_take)
  have fresh: "fst (last kvs) \<notin> fst ` set (butlast kvs)"
  proof -
    have "distinct (map fst (butlast kvs) @ [fst (last kvs)])"
      using assms(1) kvs by (metis list.simps(8) list.simps(9) map_append)
    then show ?thesis by simp
  qed
  have "put_all [] kvs = cache_put (put_all [] (butlast kvs)) (fst (last kvs)) (snd (last kvs))"
    using kvs put_all_snoc [of "[]" "butlast kvs" "last kvs"] by simp
  also have "\<dots> = cache_put (butlast kvs) (fst (last kvs)) (snd (last kvs))"
    using small [of 1000] by (simp add: butlast)
  also have "\<dots> = cleanup_cache (butlast kvs @ [last kvs])"
    using fresh by (simp add: cache_put_def dict_set_def)
  also have "\<dots> = cleanup_cache kvs" using kvs by simp
  also have "\<dots> = drop 500 kvs"
    using assms by (simp add: cleanup_cache_drop)
  finally have full: "put_all [] kvs = drop 500 kvs" .
  have bound: "length (put_all [] (take n kvs)) \<le> 1000" if "n \<le> 1001" for n
  proof (cases "n \<le> 1000")
    case True
    then show ?thesis by (simp add: small)
  next
    case False
    with that have "n = 1001" by simp
    then show ?thesis using assms(2) full by simp
  qed
  show ?thesis
    using full bound by (auto simp: cleanup_cache_drop cache_put_bounded)
qed

theorem cache_bounded_after_1001_stores_witness:
  "distinct (map fst (map (\<lambda>i. (i, i)) [0..<1001])) \<and>
   length (map (\<lambda>i. (i, i)) [0..<1001]) = 1001 \<and>
   put_all [] (map (\<lambda>i. (i, i)) [0..<1001]) = drop 500 (map (\<lambda>i. (i, i)) [0..<1001])"
proof -
  have d: "distinct (map fst (map (\<lambda>i. (i, i)) [0..<1001]))"
    by (simp add: comp_def)
  have l: "length (map (\<lambda>i. (i, i)) [0..<1001]) = 1001" by simp
  from cache_bounded_after_1001_stores [OF d l] d l show ?thesis by blast
qed

section \<open>Claims about repeated detections\<close>

text \<open>
  After a call whose \<open>try\<close> block completed, the cache holds the returned result under
  the key of the text.
\<close>

lemma cached_after_success:
  assumes inv: "engine_inv s" and key: "generate_cache_key t = Inr k"
    and first: "detect_text_try s t d1 p1 = Inr (r1, s1)"
  shows "map_of (cache s1) k = Some r1"
proof (cases "map_of (cache s) k")
  case (Some c)
  from first try_hit [OF key Some, of d1 p1]
  have "r1 = c\<lparr>detection_id := d1\<rparr>"
    and "s1 = s\<lparr>cache := dict_set (cache s) k (c\<lparr>detection_id := d1\<rparr>)\<rparr>"
    by auto
  then show ?thesis by (simp add: map_of_dict_set)
next
  case None
  from first obtain res st where
    res: "perform_detection (keywords_db s) (preprocess_text t) d1 = Inr res"
    and st: "update_statistics (statistics s) res p1 = Inr st"
    using key None
    by (auto simp: detect_text_try_def Let_def split: sum.splits)
  from first try_miss [OF key None res st]
  have "r1 = res"
    and "s1 = s\<lparr>cache := cleanup_cache (dict_set (cache s) k res), statistics := st\<rparr>"
    by auto
  moreover from inv have "distinct (map fst (cache s))" by (simp add: engine_inv_def)
  ultimately show ?thesis using None by (simp add: map_of_cleanup_after_store)
qed

text \<open>A second run of the body after a run whose \<open>try\<close> block completed.\<close>

lemma second_run_hits:
  assumes key: "generate_cache_key t2 = Inr k"
    and cached: "map_of (cache s1) k = Some r1"
  shows "served_from_cache s1 t2 \<and>
         detect_text_body s1 t2 d2 p2 =
           (r1\<lparr>detection_id := d2\<rparr>,
            s1\<lparr>cache := dict_set (cache s1) k (r1\<lparr>detection_id := d2\<rparr>)\<rparr>)"
  using try_hit [OF key cached, of d2 p2] key cached
  by (simp add: served_from_cache_def body_of_try)

text \<open>
  Claim C7 as stated fails: for the text of a lone surrogate the \<open>try\<close> block of the
  first call fails on the encoding, the body returns the fallback result and stores
  nothing, and a second call is not served from the cache.
\<close>

theorem failed_detection_not_cached_counterexample:
  "detect_text_body initial_attributes text_surrogate id_first elapsed =
     (fallback_result id_first, initial_attributes) \<and>
   engine_after (detect_text initial_attributes text_surrogate id_first elapsed) =
     initial_attributes \<and>
   \<not> served_from_cache initial_attributes text_surrogate"
proof -
  have "detect_text_body initial_attributes text_surrogate id_first elapsed =
      (fallback_result id_first, initial_attributes)"
    by (simp add: detect_text_body_def detect_text_try_def generate_cache_key_def
        text_surrogate_def utf8_char_def)
  moreover have "\<not> served_from_cache initial_attributes text_surrogate"
    by (simp add: served_from_cache_def generate_cache_key_def text_surrogate_def utf8_char_def)
  ultimately show ?thesis by (simp add: engine_after_detect_text)
qed

text \<open>
  Claim C7, amended. In a consistent engine, two successive runs of the body of
  \<open>detect_text\<close> on the same text compute results that agree in everything but the
  identifier, so in score, level, reasons and categories; the state between them is the
  engine as the first call leaves it; and the second run is served from the cache exactly
  when the \<open>try\<close> block of the first completed, which it does exactly when the text can
  be encoded.
\<close>

theorem detect_twice_same_verdict:
  assumes "engine_inv s"
    and "detect_text_body s text d1 p1 = (r1, s1)"
    and "detect_text_body s1 text d2 p2 = (r2, s2)"
  shows "score r2 = score r1 \<and> level r2 = level r1 \<and> reasons r2 = reasons r1 \<and>
         categories r2 = categories r1 \<and> r2 = r1\<lparr>detection_id := d2\<rparr> \<and>
         engine_after (detect_text s text d1 p1) = s1 \<and>
         (served_from_cache s1 text \<longleftrightarrow> (\<exists>out. detect_text_try s text d1 p1 = Inr out)) \<and>
         (served_from_cache s1 text \<longleftrightarrow> (\<exists>k. generate_cache_key text = Inr k))"
proof -
  have after: "engine_after (detect_text s text d1 p1) = s1"
    using assms(2) by (simp add: engine_after_detect_text)
  show ?thesis
  proof (cases "detect_text_try s text d1 p1")
    case (Inl es)
    obtain e s' where es: "es = (e, s')" by (cases es)
    from try_fails_only_on_key [OF assms(1) Inl [unfolded es]]
    have key: "generate_cache_key text = Inl e" and s': "s' = s" by simp_all
    from assms(2) body_of_failed_try [OF Inl [unfolded es]]
    have r1: "r1 = fallback_result d1" and s1: "s1 = s" using s' by simp_all
    from assms(3) body_of_failed_try [OF try_key_error [OF key, of s d2 p2]]
    have r2: "r2 = fallback_result d2" using s1 by simp
    have "\<not> served_from_cache s1 text" using key by (simp add: served_from_cache_def)
    with Inl key after show ?thesis unfolding r1 r2 by (simp add: fallback_result_def)
  next
    case (Inr out)
    from assms(2) body_of_try [OF Inr] have try1: "detect_text_try s text d1 p1 = Inr (r1, s1)"
      using Inr by simp
    then obtain k where key: "generate_cache_key text = Inr k"
      by (auto simp: detect_text_try_def split: sum.splits)
    have cached: "map_of (cache s1) k = Some r1"
      using assms(1) key try1 by (rule cached_after_success)
    from second_run_hits [OF key cached, of d2 p2] assms(3)
    have "served_from_cache s1 text" and "r2 = r1\<lparr>detection_id := d2\<rparr>" by simp_all
    with Inr key after show ?thesis by simp
  qed
qed

theorem detect_twice_same_verdict_witness:
  "engine_inv initial_attributes \<and>
   (\<exists>r1 s1 r2 s2.
      detect_text_body initial_attributes text_cooking id_first elapsed = (r1, s1) \<and>
      detect_text_body s1 text_cooking id_second elapsed = (r2, s2) \<and>
      score r2 = score r1 \<and> level r2 = level r1 \<and> reasons r2 = reasons r1 \<and>
      categories r2 = categories r1 \<and> r2 = r1\<lparr>detection_id := id_second\<rparr> \<and>
      served_from_cache s1 text_cooking)"
proof -
  from cooking_first_run [of id_first elapsed] obtain r1 s1 where
    try1: "detect_text_try initial_attributes text_cooking id_first elapsed = Inr (r1, s1)"
    by blast
  then have run1: "detect_text_body initial_attributes text_cooking id_first elapsed = (r1, s1)"
    by (rule body_of_try)
  obtain r2 s2 where run2: "detect_text_body s1 text_cooking id_second elapsed = (r2, s2)"
    by (cases "detect_text_body s1 text_cooking id_second elapsed")
  from detect_twice_same_verdict [OF initial_attributes_inv run1 run2] try1
  have "score r2 = score r1 \<and> level r2 = level r1 \<and> reasons r2 = reasons r1 \<and>
      categories r2 = categories r1 \<and> r2 = r1\<lparr>detection_id := id_second\<rparr> \<and>
      served_from_cache s1 text_cooking"
    by simp
  with run1 run2 initial_attributes_inv show ?thesis by blast
qed

text \<open>
  Claim C10. A call that is answered from the cache leaves the statistics as they were:
  the total, the counts per level and the average processing time. The \<open>try\<close> block
  returns the cached result, and the engine after the call has the statistics of the
  engine before it.
\<close>

theorem cache_hit_leaves_statistics:
  assumes "served_from_cache s text"
  shows "\<exists>r s'. detect_text_try s text did pt = Inr (r, s') \<and> statistics s' = statistics s \<and>
           engine_after (detect_text s text did pt) = s'"
proof -
  from assms obtain k c where key: "generate_cache_key text = Inr k"
    and hit: "map_of (cache s) k = Some c"
    by (auto simp: served_from_cache_def split: sum.splits)
  from try_hit [OF key hit, of did pt] show ?thesis
    by (simp add: engine_after_detect_text body_of_try)
qed

text \<open>
  The cooking lesson twice: the first call counts one detection, the second is answered
  from the cache and the count stays at one.
\<close>

theorem cache_hit_leaves_statistics_witness:
  "\<exists>r1 s1. detect_text_try initial_attributes text_cooking id_first elapsed = Inr (r1, s1) \<and>
     total_detections (statistics s1) = 1 \<and> served_from_cache s1 text_cooking \<and>
     (\<exists>r2 s2. detect_text_try s1 text_cooking id_second elapsed = Inr (r2, s2) \<and>
        statistics s2 = statistics s1 \<and> total_detections (statistics s2) = 1 \<and>
        engine_after (detect_text s1 text_cooking id_second elapsed) = s2)"
proof -
  from cooking_first_run [of id_first elapsed] obtain k st where
    key: "generate_cache_key text_cooking = Inr k"
    and try1: "detect_text_try initial_attributes text_cooking id_first elapsed =
      Inr (finish_detection init_acc id_first,
           initial_attributes\<lparr>cache := [(k, finish_detection init_acc id_first)],
             statistics := st\<rparr>)"
    and one: "total_detections st = 1"
    by blast
  let ?s1 = "initial_attributes\<lparr>cache := [(k, finish_detection init_acc id_first)],
    statistics := st\<rparr>"
  have served: "served_from_cache ?s1 text_cooking"
    using key by (simp add: served_from_cache_def)
  from cache_hit_leaves_statistics [OF served, of id_second elapsed] obtain r2 s2 where
    "detect_text_try ?s1 text_cooking id_second elapsed = Inr (r2, s2)"
    and "statistics s2 = statistics ?s1"
    and "engine_after (detect_text ?s1 text_cooking id_second elapsed) = s2"
    by blast
  with try1 one served show ?thesis by auto
qed


section \<open>Claims about the cache key\<close>

lemma md5_lower_a: "md5_hexdigest [0x61] = digest_lower_a"
  unfolding digest_lower_a_def by code_simp

lemma md5_upper_a: "md5_hexdigest [0x41] = digest_upper_a"
  unfolding digest_upper_a_def by code_simp

lemma key_lower_a: "generate_cache_key text_lower_a = Inr digest_lower_a"
  by (simp add: generate_cache_key_def text_lower_a_def utf8_char_def md5_lower_a)

lemma key_upper_a: "generate_cache_key text_upper_a = Inr digest_upper_a"
  by (simp add: generate_cache_key_def text_upper_a_def utf8_char_def md5_upper_a)

lemma digests_differ: "digest_upper_a \<noteq> digest_lower_a"
  by (simp add: digest_upper_a_def digest_lower_a_def)

lemma lower_a_not_space: "is_space 0x61 = False"
  by (simp add: is_space_def space_ranges_def)

lemma lower_a_kept: "is_kept 0x61"
  by (simp add: is_kept_def kept_punctuation_def lower_a_not_space is_word_def
      word_ranges_for_def word_ranges_0_def)

lemma preprocess_lower_a: "preprocess_text text_lower_a = text_lower_a"
  by (simp add: preprocess_text_def text_lower_a_def py_lower_def py_lower_char_def
      lower_table_def py_strip_def lower_a_not_space lower_a_kept)

lemma preprocess_upper_a: "preprocess_text text_upper_a = text_lower_a"
  by (simp add: preprocess_text_def text_upper_a_def text_lower_a_def py_lower_def
      py_lower_char_def lower_table_def py_strip_def lower_a_not_space lower_a_kept)

lemma lower_a_numbers: "detect_suspicious_numbers text_lower_a = Inr 0"
  by (simp add: detect_suspicious_numbers_def text_lower_a_def rx_yield_def money_patterns_def
      rx_eval is_digit_def digit_ranges_def)

lemma lower_a_first_run:
  "\<exists>r st. detect_text_try initial_attributes text_lower_a did pt =
            Inr (r, initial_attributes\<lparr>cache := [(digest_lower_a, r)], statistics := st\<rparr>)"
proof -
  obtain r where "perform_detection load_keywords text_lower_a did = Inr r"
    using perform_detection_score [OF lower_a_numbers] by blast
  then have "perform_detection load_keywords (preprocess_text text_lower_a) did = Inr r"
    by (simp add: preprocess_lower_a)
  from try_on_initial [OF key_lower_a this] show ?thesis by blast
qed

text \<open>The two colliding texts are pure ASCII, and their digest is the same.\<close>

lemma md5_collision_1:
  "md5_hexdigest
     [0x54, 0x45, 0x58, 0x54, 0x43, 0x4F, 0x4C, 0x4C, 0x42, 0x59, 0x66, 0x47, 0x69, 0x4A, 0x55,
      0x45, 0x54, 0x48, 0x51, 0x34, 0x68, 0x41, 0x63, 0x4B, 0x53, 0x4D, 0x64, 0x35, 0x7A, 0x59,
      0x70, 0x67, 0x71, 0x66, 0x31, 0x59, 0x52, 0x44, 0x68, 0x6B, 0x6D, 0x78, 0x48, 0x6B, 0x68,
      0x50, 0x57, 0x70, 0x74, 0x72, 0x6B, 0x6F, 0x79, 0x7A, 0x32, 0x38, 0x77, 0x6E, 0x49, 0x39,
      0x56, 0x30, 0x61, 0x48, 0x65, 0x41, 0x75, 0x61, 0x4B, 0x6E, 0x61, 0x6B] = digest_collision"
  unfolding digest_collision_def by code_simp

lemma md5_collision_2:
  "md5_hexdigest
     [0x54, 0x45, 0x58, 0x54, 0x43, 0x4F, 0x4C, 0x4C, 0x42, 0x59, 0x66, 0x47, 0x69, 0x4A, 0x55,
      0x45, 0x54, 0x48, 0x51, 0x34, 0x68, 0x45, 0x63, 0x4B, 0x53, 0x4D, 0x64, 0x35, 0x7A, 0x59,
      0x70, 0x67, 0x71, 0x66, 0x31, 0x59, 0x52, 0x44, 0x68, 0x6B, 0x6D, 0x78, 0x48, 0x6B, 0x68,
      0x50, 0x57, 0x70, 0x74, 0x72, 0x6B, 0x6F, 0x79, 0x7A, 0x32, 0x38, 0x77, 0x6E, 0x49, 0x39,
      0x56, 0x30, 0x61, 0x48, 0x65, 0x41, 0x75, 0x61, 0x4B, 0x6E, 0x61, 0x6B] = digest_collision"
  unfolding digest_collision_def by code_simp

lemma key_collision_1: "generate_cache_key text_collision_1 = Inr digest_collision"
  by (simp add: generate_cache_key_def text_collision_1_def utf8_char_def md5_collision_1)

lemma key_collision_2: "generate_cache_key text_collision_2 = Inr digest_collision"
  by (simp add: generate_cache_key_def text_collision_2_def utf8_char_def md5_collision_2)

text \<open>
  Claim C9 as stated fails: the capital and the lower-case letter a have the same
  normalised form but different cache keys, and after a detection of the lower-case
  letter a detection of the capital is not served from the cache.
\<close>

theorem same_normal_form_not_shared_counterexample:
  "preprocess_text text_upper_a = preprocess_text text_lower_a \<and>
   generate_cache_key text_lower_a = Inr digest_lower_a \<and>
   generate_cache_key text_upper_a = Inr digest_upper_a \<and>
   (\<exists>r st. detect_text_body initial_attributes text_lower_a id_first elapsed =
              (r, initial_attributes\<lparr>cache := [(digest_lower_a, r)], statistics := st\<rparr>) \<and>
            \<not> served_from_cache
                 (initial_attributes\<lparr>cache := [(digest_lower_a, r)], statistics := st\<rparr>)
                 text_upper_a)"
proof -
  from lower_a_first_run [of id_first elapsed] obtain r st where
    "detect_text_body initial_attributes text_lower_a id_first elapsed =
       (r, initial_attributes\<lparr>cache := [(digest_lower_a, r)], statistics := st\<rparr>)"
    by (auto dest: body_of_try)
  moreover have "\<not> served_from_cache
      (initial_attributes\<lparr>cache := [(digest_lower_a, r)], statistics := st\<rparr>) text_upper_a"
    using digests_differ by (simp add: served_from_cache_def key_upper_a)
  ultimately show ?thesis
    by (auto simp: preprocess_upper_a preprocess_lower_a key_lower_a key_upper_a)
qed

text \<open>
  Claim C9, amended. The cache key is the MD5 digest of the UTF-8 encoding of the raw
  input text, taken before the text is normalised: in a consistent engine, after a call
  on one text, a run of the body of \<open>detect_text\<close> on any text with the same digest is
  served from the cache and returns the first run's result with the new identifier.
\<close>

theorem same_raw_digest_shares_cache_entry:
  assumes "engine_inv s"
    and "generate_cache_key t1 = Inr k" and "generate_cache_key t2 = Inr k"
    and "detect_text_body s t1 d1 p1 = (r1, s1)"
  shows "engine_after (detect_text s t1 d1 p1) = s1 \<and> served_from_cache s1 t2 \<and>
         (\<exists>s2. detect_text_body s1 t2 d2 p2 = (r1\<lparr>detection_id := d2\<rparr>, s2))"
proof -
  from try_completes [OF assms(1) assms(2), of d1 p1] obtain r s' where
    try1: "detect_text_try s t1 d1 p1 = Inr (r, s')" by blast
  from body_of_try [OF try1] assms(4) have "r = r1" and "s' = s1" by simp_all
  with try1 have "detect_text_try s t1 d1 p1 = Inr (r1, s1)" by simp
  with assms(1) assms(2) have cached: "map_of (cache s1) k = Some r1"
    by (rule cached_after_success)
  from second_run_hits [OF assms(3) cached, of d2 p2] assms(4) show ?thesis
    by (simp add: engine_after_detect_text)
qed

text \<open>
  Two different texts with the same digest: the second is answered with the result
  computed for the first.
\<close>

theorem same_raw_digest_shares_cache_entry_witness:
  "text_collision_1 \<noteq> text_collision_2 \<and>
   engine_inv initial_attributes \<and>
   generate_cache_key text_collision_1 = Inr digest_collision \<and>
   generate_cache_key text_collision_2 = Inr digest_collision \<and>
   (\<exists>r1 s1. detect_text_body initial_attributes text_collision_1 id_first elapsed = (r1, s1) \<and>
      served_from_cache s1 text_collision_2 \<and>
      (\<exists>s2. detect_text_body s1 text_collision_2 id_second elapsed =
               (r1\<lparr>detection_id := id_second\<rparr>, s2)))"
proof -
  have differ: "text_collision_1 \<noteq> text_collision_2"
    by (simp add: text_collision_1_def text_collision_2_def)
  obtain r1 s1 where
    run1: "detect_text_body initial_attributes text_collision_1 id_first elapsed = (r1, s1)"
    by (cases "detect_text_body initial_attributes text_collision_1 id_first elapsed")
  from same_raw_digest_shares_cache_entry
    [OF initial_attributes_inv key_collision_1 key_collision_2 run1, of id_second elapsed]
    run1 differ initial_attributes_inv key_collision_1 key_collision_2
  show ?thesis by blast
qed


section \<open>Claims about the ensemble vote\<close>

lemma keys_add_vote: "map fst (add_vote vs k x) = map fst vs"
  unfolding add_vote_def by (induction vs) (simp_all add: split_def)

lemma map_of_add_vote:
  "map_of (add_vote vs k x) k' =
     map_option (\<lambda>v. if k' = k then v + x else v) (map_of vs k')"
  unfolding add_vote_def by (induction vs) (simp_all add: split_def)

lemma three_keys:
  assumes "map fst vs = [safe, warning, danger]"
  obtains a b c where "vs = [(safe, a), (warning, b), (danger, c)]"
proof -
  from assms obtain p q r where vs: "vs = [p, q, r]"
    by (cases vs; cases "tl vs"; cases "tl (tl vs)") auto
  with assms have "p = (safe, snd p)" and "q = (warning, snd q)" and "r = (danger, snd r)"
    by (simp_all add: prod_eq_iff)
  with vs have "vs = [(safe, snd p), (warning, snd q), (danger, snd r)]" by simp
  then show ?thesis by (rule that)
qed

lemma vote_of_add_vote:
  assumes "map fst vs = [safe, warning, danger]"
  shows "vote_of (add_vote vs k x) k' = vote_of vs k' + (if k' = k then x else 0)"
proof -
  from assms obtain a b c where vs: "vs = [(safe, a), (warning, b), (danger, c)]"
    by (rule three_keys)
  show ?thesis
    unfolding vote_of_def map_of_add_vote
    by (cases k'; cases k) (simp_all add: vs)
qed

text \<open>The key chosen by \<open>max\<close> carries a maximal vote mass.\<close>

lemma max_key_maximal:
  assumes "map fst vs = [safe, warning, danger]"
  shows "vote_of vs k \<le> vote_of vs (max_key vs)"
proof -
  from assms obtain a b c where vs: "vs = [(safe, a), (warning, b), (danger, c)]"
    by (rule three_keys)
  show ?thesis
    by (cases k) (auto simp: vs vote_of_def max_key_def)
qed

lemma vote_step_effect:
  assumes "map fst (vote_scores a) = [safe, warning, danger]"
  shows "map fst (vote_scores (vote_step w a p)) = [safe, warning, danger]"
    and "vote_of (vote_scores (vote_step w a p)) k =
           vote_of (vote_scores a) k + (if pred_prediction p = k then weighted_confidence w p else 0)"
    and "total_confidence (vote_step w a p) = total_confidence a + weighted_confidence w p"
  using assms
  by (auto simp: vote_step_def Let_def keys_add_vote vote_of_add_vote weighted_confidence_def)

lemma foldl_vote_step:
  assumes "map fst (vote_scores a) = [safe, warning, danger]"
  shows "map fst (vote_scores (foldl (vote_step w) a ps)) = [safe, warning, danger] \<and>
         (\<forall>k. vote_of (vote_scores (foldl (vote_step w) a ps)) k =
               vote_of (vote_scores a) k +
               sum_list (map (weighted_confidence w) (filter (\<lambda>p. pred_prediction p = k) ps))) \<and>
         total_confidence (foldl (vote_step w) a ps) =
           total_confidence a + sum_list (map (weighted_confidence w) ps)"
  using assms
proof (induction ps arbitrary: a)
  case Nil
  then show ?case by simp
next
  case (Cons p ps)
  note step = vote_step_effect [OF Cons.prems, of w p]
  from Cons.IH [OF step(1)] show ?case
    by (simp add: step(2) step(3))
qed

text \<open>
  Claim C8. For every non-empty sequence of opinions the voter returns a verdict in
  which the vote mass of each level is the sum of weight times confidence over the
  opinions that predict this level, the weight of a source that is not in the table being
  0.1; the returned level has the maximal vote mass; and the returned confidence is the
  total of weight times confidence divided by the number of opinions.
\<close>

theorem weighted_voting_verdict:
  assumes "predictions \<noteq> []"
  shows "\<exists>v. weighted_voting predictions weights = Inr v \<and>
           (\<forall>k. vote_of (final_vote_scores v) k =
                 sum_list (map (weighted_confidence weights)
                             (filter (\<lambda>p. pred_prediction p = k) predictions))) \<and>
           (\<forall>k. vote_of (final_vote_scores v) k
                 \<le> vote_of (final_vote_scores v) (final_prediction v)) \<and>
           final_confidence v =
             sum_list (map (weighted_confidence weights) predictions) / real (length predictions) \<and>
           (\<forall>n. map_of weights n = None \<longrightarrow> weight_of weights n = 0.1)"
proof -
  let ?a0 = "\<lparr>vote_scores = [(safe, 0), (warning, 0), (danger, 0)], total_confidence = 0,
              explanations = []\<rparr>"
  have keys0: "map fst (vote_scores ?a0) = [safe, warning, danger]" by simp
  note fold = foldl_vote_step [OF keys0, of weights predictions]
  have zero: "vote_of (vote_scores ?a0) k = 0" for k
    by (cases k) (simp_all add: vote_of_def)
  define a where "a = foldl (vote_step weights) ?a0 predictions"
  have keys: "map fst (vote_scores a) = [safe, warning, danger]"
    using fold by (simp add: a_def)
  have mass: "vote_of (vote_scores a) k =
      sum_list (map (weighted_confidence weights)
        (filter (\<lambda>p. pred_prediction p = k) predictions))" for k
    using fold zero [of k] by (simp add: a_def)
  have total: "total_confidence a = sum_list (map (weighted_confidence weights) predictions)"
    using fold by (simp add: a_def)
  have run: "weighted_voting predictions weights =
      Inr \<lparr>final_prediction = max_key (vote_scores a),
           final_confidence = total_confidence a / real (length predictions),
           final_explanation = py_join [0x20, 0x7C, 0x20] (explanations a),
           final_vote_scores = vote_scores a,
           model_predictions = predictions\<rparr>"
    using assms by (simp add: weighted_voting_def Let_def a_def)
  have top: "vote_of (vote_scores a) k \<le> vote_of (vote_scores a) (max_key (vote_scores a))" for k
    using keys by (rule max_key_maximal)
  have default: "map_of weights n = None \<longrightarrow> weight_of weights n = 0.1" for n
    by (simp add: weight_of_def)
  show ?thesis
    unfolding run using mass top total default by simp
qed

text \<open>
  The scenario of the three opinions: Danger with confidence 0.9 at weight 0.4, Safe with
  0.8 at weight 0.3 and Warning with 0.7 at weight 0.3 give the vote masses 0.36, 0.24 and
  0.21, and the verdict Danger.
\<close>

theorem weighted_voting_verdict_witness:
  "[opinion_a, opinion_b, opinion_c] \<noteq> [] \<and>
   (\<exists>v. weighted_voting [opinion_a, opinion_b, opinion_c] scenario_weights = Inr v \<and>
      vote_of (final_vote_scores v) danger = 0.36 \<and>
      vote_of (final_vote_scores v) safe = 0.24 \<and>
      vote_of (final_vote_scores v) warning = 0.21 \<and>
      final_prediction v = danger \<and>
      final_confidence v = 0.27)"
proof -
  have wa: "weighted_confidence scenario_weights opinion_a = 0.36"
    by (simp add: weighted_confidence_def opinion_a_def scenario_weights_def weight_of_def
        py_lower_def py_lower_char_def lower_table_def)
  have wb: "weighted_confidence scenario_weights opinion_b = 0.24"
    by (simp add: weighted_confidence_def opinion_b_def scenario_weights_def weight_of_def
        py_lower_def py_lower_char_def lower_table_def)
  have wc: "weighted_confidence scenario_weights opinion_c = 0.21"
    by (simp add: weighted_confidence_def opinion_c_def scenario_weights_def weight_of_def
        py_lower_def py_lower_char_def lower_table_def)
  have pa: "pred_prediction opinion_a = danger" and pb: "pred_prediction opinion_b = safe"
    and pc: "pred_prediction opinion_c = warning"
    by (simp_all add: opinion_a_def opinion_b_def opinion_c_def)
  from weighted_voting_verdict [of "[opinion_a, opinion_b, opinion_c]" scenario_weights]
  obtain v where v: "weighted_voting [opinion_a, opinion_b, opinion_c] scenario_weights = Inr v"
    and mass: "\<And>k. vote_of (final_vote_scores v) k =
        sum_list (map (weighted_confidence scenario_weights)
          (filter (\<lambda>p. pred_prediction p = k) [opinion_a, opinion_b, opinion_c]))"
    and top: "\<And>k. vote_of (final_vote_scores v) k
        \<le> vote_of (final_vote_scores v) (final_prediction v)"
    and conf: "final_confidence v =
        sum_list (map (weighted_confidence scenario_weights) [opinion_a, opinion_b, opinion_c])
          / real (length [opinion_a, opinion_b, opinion_c])"
    by auto
  have d: "vote_of (final_vote_scores v) danger = 0.36"
    and s: "vote_of (final_vote_scores v) safe = 0.24"
    and w: "vote_of (final_vote_scores v) warning = 0.21"
    by (simp_all add: mass pa pb pc wa wb wc)
  have "final_prediction v = danger"
  proof (cases "final_prediction v")
    case safe
    with top [of danger] d s show ?thesis by simp
  next
    case warning
    with top [of danger] d w show ?thesis by simp
  next
    case danger
    then show ?thesis .
  qed
  moreover have "final_confidence v = 0.27"
    by (simp add: conf wa wb wc)
  ultimately show ?thesis using v d s w by simp
qed

end
